theory Spec2Isabelle
  imports Main
begin

section \<open>JavaScript strings\<close>

text \<open>
  Rows are text read from the bank's CSV export. A string is a \<^typ>\<open>string\<close>; the
  character tests below are those of ECMAScript regular expressions without flags,
  written on character codes. Case conversion is the ASCII one: a character outside
  \<open>a\<close>..\<open>z\<close> and \<open>A\<close>..\<open>Z\<close> is left as it is.
\<close>

definition code :: "char \<Rightarrow> nat" where
  "code c = of_char c"

text \<open>\<^verbatim>\<open>\d\<close> and \<^verbatim>\<open>[0-9]\<close>\<close>
definition digit :: "char \<Rightarrow> bool" where
  "digit c = (48 \<le> code c \<and> code c \<le> 57)"

text \<open>\<^verbatim>\<open>[A-Z]\<close>\<close>
definition upper :: "char \<Rightarrow> bool" where
  "upper c = (65 \<le> code c \<and> code c \<le> 90)"

text \<open>\<^verbatim>\<open>[a-z]\<close>\<close>
definition lower :: "char \<Rightarrow> bool" where
  "lower c = (97 \<le> code c \<and> code c \<le> 122)"

text \<open>\<^verbatim>\<open>\w\<close>: letters, digits and the underscore\<close>
definition word :: "char \<Rightarrow> bool" where
  "word c = (upper c \<or> lower c \<or> digit c \<or> code c = 95)"

text \<open>\<^verbatim>\<open>\s\<close>: tab, line feed, vertical tab, form feed, carriage return, space, no-break space\<close>
definition space :: "char \<Rightarrow> bool" where
  "space c = ((9 \<le> code c \<and> code c \<le> 13) \<or> code c = 32 \<or> code c = 160)"

text \<open>\<^verbatim>\<open>.\<close>: anything but a line terminator\<close>
definition dot :: "char \<Rightarrow> bool" where
  "dot c = (code c \<noteq> 10 \<and> code c \<noteq> 13)"

text \<open>\<^verbatim>\<open>[A-z]\<close>: the code range 65..122, which also holds the six characters between \<open>Z\<close> and \<open>a\<close>\<close>
definition A_to_z :: "char \<Rightarrow> bool" where
  "A_to_z c = (65 \<le> code c \<and> code c \<le> 122)"

definition toUpperChar :: "char \<Rightarrow> char" where
  "toUpperChar c = (if lower c then char_of (code c - 32) else c)"

definition toLowerChar :: "char \<Rightarrow> char" where
  "toLowerChar c = (if upper c then char_of (code c + 32) else c)"

definition toUpperCase :: "string \<Rightarrow> string" where
  "toUpperCase s = map toUpperChar s"

definition toLowerCase :: "string \<Rightarrow> string" where
  "toLowerCase s = map toLowerChar s"

text \<open>\<^verbatim>\<open>s.startsWith(p)\<close>\<close>
definition startsWith :: "string \<Rightarrow> string \<Rightarrow> bool" where
  "startsWith s p = (take (length p) s = p)"

text \<open>\<^verbatim>\<open>s.trim()\<close>: white space and line terminators go from both ends\<close>
definition trim :: "string \<Rightarrow> string" where
  "trim s = rev (dropWhile space (rev (dropWhile space s)))"

text \<open>\<^verbatim>\<open>s.split(d)\<close> for a separator of one character: never the empty list\<close>
fun split :: "char \<Rightarrow> string \<Rightarrow> string list" where
  "split d [] = [[]]"
| "split d (c # cs) =
     (if c = d then [] # split d cs
      else (case split d cs of p # ps \<Rightarrow> (c # p) # ps | [] \<Rightarrow> [[c]]))"

text \<open>\<^verbatim>\<open>parts.join(d)\<close> on strings\<close>
fun join :: "string \<Rightarrow> string list \<Rightarrow> string" where
  "join d [] = []"
| "join d [x] = x"
| "join d (x # y # ys) = x @ d @ join d (y # ys)"

section \<open>Regular expressions\<close>

text \<open>
  The patterns of the importer use literals, character classes, greedy and lazy
  repetition of one class, an optional group, alternation, capture groups and one
  lookahead. A pattern is matched by backtracking: \<open>rmatch r (s, caps)\<close> lists, in the
  order in which a backtracking matcher tries them, every way \<open>r\<close> can match at the
  front of \<open>s\<close>, each as the text left over and the captures made. The first element is
  the match ECMAScript reports.
\<close>

datatype regex =
    Lit string
  | Cls "char \<Rightarrow> bool"
  | Seq regex regex
  | Alt regex regex
  | Opt regex
  | Star "char \<Rightarrow> bool"
  | Plus "char \<Rightarrow> bool"
  | LazyStar "char \<Rightarrow> bool"
  | Group nat regex
  | Lookahead regex

type_synonym captures = "(nat \<times> string) list"
type_synonym mstate = "string \<times> captures"

fun strip_prefix :: "string \<Rightarrow> string \<Rightarrow> string option" where
  "strip_prefix [] s = Some s"
| "strip_prefix (p # ps) [] = None"
| "strip_prefix (p # ps) (c # cs) = (if p = c then strip_prefix ps cs else None)"

text \<open>What a greedy \<open>p*\<close> can leave: the longest run first.\<close>
fun star_rests :: "(char \<Rightarrow> bool) \<Rightarrow> string \<Rightarrow> string list" where
  "star_rests p [] = [[]]"
| "star_rests p (c # cs) = (if p c then star_rests p cs @ [c # cs] else [c # cs])"

fun rmatch :: "regex \<Rightarrow> mstate \<Rightarrow> mstate list" where
  "rmatch (Lit l) (s, caps) = (case strip_prefix l s of None \<Rightarrow> [] | Some r \<Rightarrow> [(r, caps)])"
| "rmatch (Cls p) (s, caps) = (case s of [] \<Rightarrow> [] | c # cs \<Rightarrow> if p c then [(cs, caps)] else [])"
| "rmatch (Seq a b) st = concat (map (rmatch b) (rmatch a st))"
| "rmatch (Alt a b) st = rmatch a st @ rmatch b st"
| "rmatch (Opt a) st = rmatch a st @ [st]"
| "rmatch (Star p) (s, caps) = map (\<lambda>r. (r, caps)) (star_rests p s)"
| "rmatch (Plus p) (s, caps) =
     (case s of [] \<Rightarrow> [] | c # cs \<Rightarrow> if p c then map (\<lambda>r. (r, caps)) (star_rests p cs) else [])"
| "rmatch (LazyStar p) (s, caps) = map (\<lambda>r. (r, caps)) (rev (star_rests p s))"
| "rmatch (Group n a) (s, caps) =
     map (\<lambda>(r, cs). (r, (n, take (length s - length r) s) # cs)) (rmatch a (s, caps))"
| "rmatch (Lookahead a) st = (if rmatch a st = [] then [] else [st])"

text \<open>
  \<^verbatim>\<open>r.exec(s)\<close> and \<^verbatim>\<open>s.match(r)\<close> for a pattern without the \<^verbatim>\<open>g\<close> flag: the first
  start position, from the left, at which the pattern matches. \<open>None\<close> is \<^verbatim>\<open>null\<close>.
\<close>
fun exec :: "regex \<Rightarrow> string \<Rightarrow> captures option" where
  "exec r [] = (case rmatch r ([], []) of [] \<Rightarrow> None | (rest, caps) # _ \<Rightarrow> Some caps)"
| "exec r (c # cs) =
     (case rmatch r (c # cs, []) of [] \<Rightarrow> exec r cs | (rest, caps) # _ \<Rightarrow> Some caps)"

text \<open>
  \<^verbatim>\<open>matches[n]\<close>. In every pattern below each capture group lies on every path through
  the pattern, so a match binds all of them (\<open>patterns_bind\<close>, \<open>exec_binds\<close>); the empty
  string stands for the \<^verbatim>\<open>undefined\<close> of a group that took no part.
\<close>
definition grp :: "captures \<Rightarrow> nat \<Rightarrow> string" where
  "grp caps n = (case map_of caps n of None \<Rightarrow> [] | Some g \<Rightarrow> g)"

text \<open>Group \<open>n\<close> lies on every path through the pattern.\<close>
fun binds :: "nat \<Rightarrow> regex \<Rightarrow> bool" where
  "binds n (Group k a) = (k = n \<or> binds n a)"
| "binds n (Seq a b) = (binds n a \<or> binds n b)"
| "binds n (Alt a b) = (binds n a \<and> binds n b)"
| "binds n _ = False"

fun seqs :: "regex list \<Rightarrow> regex" where
  "seqs [] = Lit []"
| "seqs [r] = r"
| "seqs (r # rs) = Seq r (seqs rs)"

section \<open>The ledger interface (\<^verbatim>\<open>actual.ts\<close>)\<close>

text \<open>
  A \<^verbatim>\<open>UUID\<close> is a string; its TypeScript type is a template of five parts joined by
  hyphens, so no well-typed \<^verbatim>\<open>UUID\<close> is empty. The code tests such values with \<^verbatim>\<open>!x\<close>,
  which holds for \<^verbatim>\<open>undefined\<close> and for the empty string: \<open>truthy\<close> keeps the value
  that passes the test.
\<close>

type_synonym UUID = string

definition truthy :: "string option \<Rightarrow> string option" where
  "truthy v = (case v of None \<Rightarrow> None | Some s \<Rightarrow> if s = [] then None else Some s)"

text \<open>
  Every \<^verbatim>\<open>throw new Error(message)\<close> of the source is \<open>Error message\<close>. \<open>Unmodelled\<close>
  marks the one path that leaves this development (see \<open>Object_prototype_keys\<close>).
\<close>

datatype error = Error string | Unmodelled string

text \<open>The exception for a bank account number that the account mapping does not hold.\<close>
definition AccountNotFoundError :: "string \<Rightarrow> error" where
  "AccountNotFoundError accountNumber =
     Error (''Unable to find account with account number: '' @ accountNumber)"

record ICategory =
  cat_id :: "UUID option"
  cat_name :: string
  group_id :: UUID
  is_income :: "bool option"

record IPayee =
  pay_id :: "UUID option"
  pay_name :: string
  pay_category :: "UUID option"
  transfer_acct :: "UUID option"

text \<open>
  A JavaScript \<^verbatim>\<open>Date\<close>: a time value, in milliseconds since the epoch, or the Invalid
  Date.
\<close>

datatype Date = Date int | Invalid_Date

text \<open>
  A JavaScript number as the amounts have it: \<^verbatim>\<open>Math.round\<close> yields an integer, \<^verbatim>\<open>NaN\<close>
  or an infinity. Integers stand for themselves (exact below \<open>2 ^ 53\<close>); \<open>Num 0\<close> is both
  zeros, which \<^verbatim>\<open>===\<close> does not tell apart.
\<close>

datatype number = Num int | NaN | PosInfinity | NegInfinity

fun minus_number :: "number \<Rightarrow> number \<Rightarrow> number" where
  "minus_number (Num a) (Num b) = Num (a - b)"
| "minus_number NaN _ = NaN"
| "minus_number _ NaN = NaN"
| "minus_number PosInfinity PosInfinity = NaN"
| "minus_number NegInfinity NegInfinity = NaN"
| "minus_number PosInfinity _ = PosInfinity"
| "minus_number NegInfinity _ = NegInfinity"
| "minus_number (Num a) PosInfinity = NegInfinity"
| "minus_number (Num a) NegInfinity = PosInfinity"

text \<open>
  The fields of \<^verbatim>\<open>ITransaction\<close> that the importer writes (\<^verbatim>\<open>id\<close>, \<^verbatim>\<open>transfer_id\<close> and
  \<^verbatim>\<open>subtransactions\<close> are never set). \<open>None\<close> is an absent or \<^verbatim>\<open>undefined\<close> field;
  \<^verbatim>\<open>notes\<close> is a keyword of the language, so the field is \<open>notes'\<close>.
\<close>

record ITransaction =
  account :: UUID
  date :: Date
  amount :: "number option"
  payee :: "UUID option"
  payee_name :: "string option"
  imported_payee :: "string option"
  category :: "UUID option"
  notes' :: "string option"
  imported_id :: "string option"
  cleared :: "bool option"

text \<open>
  What the code calls and this repository does not hold:
  \<^item> \<open>parse\<close>: \<^verbatim>\<open>parse(dateString, 'h:mma EEE d MMMM, yyyy', new Date())\<close> of date-fns, which
    returns a \<^verbatim>\<open>Date\<close>, the Invalid Date for a string it cannot read;
  \<^item> \<open>amountToInteger_parseFloat\<close>: \<^verbatim>\<open>utils.amountToInteger(parseFloat(s))\<close>, floating-point
    arithmetic of the language and of the ledger's API;
  \<^item> \<open>createCategory\<close>: the remote call of the ledger's API, which answers with the new
    category's id or fails;
  \<^item> \<open>LocalTime\<close> and \<open>UTC\<close>: the time zone of the host, as the two conversions of the
    language between a time value and the reading of the local clock.
\<close>

record externals =
  parse :: "string \<Rightarrow> Date"
  amountToInteger_parseFloat :: "string \<Rightarrow> number"
  createCategory :: "ICategory \<Rightarrow> error + UUID"
  LocalTime :: "int \<Rightarrow> int"
  UTC :: "int \<Rightarrow> int"

text \<open>The state of class \<^verbatim>\<open>Actual\<close> that the importer reads and writes.\<close>

record Actual =
  isInitialised :: bool
  payees :: "IPayee list"
  categories :: "ICategory list"
  defaultCategoryGroupId :: "UUID option"
  incomeCategoryGroupId :: "UUID option"

text \<open>The argument of \<^verbatim>\<open>createCategoryAsync(category: ICategory | string)\<close>.\<close>

datatype category_arg = CategoryObject ICategory | CategoryName string

definition createCategoryAsync ::
  "externals \<Rightarrow> Actual \<Rightarrow> category_arg \<Rightarrow> error + (ICategory \<times> Actual)" where
  "createCategoryAsync ext a arg =
     (if \<not> isInitialised a then
        Inl (Error ''Actual not initialised, call initialiseActual() first'')
      else
        (case
           (case arg of
              CategoryObject c \<Rightarrow> Inr c
            | CategoryName n \<Rightarrow>
                (case truthy (defaultCategoryGroupId a) of
                   None \<Rightarrow> Inl (Error ''No default category group ID found, cannot create category'')
                 | Some dflt \<Rightarrow>
                     (case truthy (incomeCategoryGroupId a) of
                        None \<Rightarrow> Inl (Error ''No income category group ID found, cannot create category'')
                      | Some income \<Rightarrow>
                          Inr \<lparr>cat_id = None, cat_name = n,
                               group_id = (if n = ''Interest'' then income else dflt),
                               is_income = None\<rparr>)))
         of
           Inl e \<Rightarrow> Inl e
         | Inr c \<Rightarrow>
             (case createCategory ext c of
                Inl e \<Rightarrow> Inl e
              | Inr newCategoryId \<Rightarrow>
                  (let c' = c\<lparr>cat_id := Some newCategoryId\<rparr>
                   in Inr (c', a\<lparr>categories := categories a @ [c']\<rparr>)))))"

section \<open>Utilities (\<^verbatim>\<open>utils.js\<close>)\<close>

text \<open>
  The time arithmetic of the language, on a time value or a local reading in
  milliseconds.
\<close>

definition Day :: "int \<Rightarrow> int" where
  "Day t = t div 86400000"

definition HourFromTime :: "int \<Rightarrow> int" where
  "HourFromTime t = (t div 3600000) mod 24"

definition MinFromTime :: "int \<Rightarrow> int" where
  "MinFromTime t = (t div 60000) mod 60"

definition SecFromTime :: "int \<Rightarrow> int" where
  "SecFromTime t = (t div 1000) mod 60"

definition msFromTime :: "int \<Rightarrow> int" where
  "msFromTime t = t mod 1000"

definition MakeTime :: "int \<Rightarrow> int \<Rightarrow> int \<Rightarrow> int \<Rightarrow> int" where
  "MakeTime hour minute sec ms = hour * 3600000 + minute * 60000 + sec * 1000 + ms"

definition MakeDate :: "int \<Rightarrow> int \<Rightarrow> int" where
  "MakeDate day time = day * 86400000 + time"

text \<open>A time value beyond 100,000,000 days from the epoch is no date.\<close>
definition TimeClip :: "int \<Rightarrow> Date" where
  "TimeClip t = (if \<bar>t\<bar> \<le> 8640000000000000 then Date t else Invalid_Date)"

text \<open>\<^verbatim>\<open>date.getHours()\<close>, the hour on the local clock: \<open>None\<close> is \<^verbatim>\<open>NaN\<close>.\<close>
fun getHours :: "externals \<Rightarrow> Date \<Rightarrow> int option" where
  "getHours ext (Date t) = Some (HourFromTime (LocalTime ext t))"
| "getHours ext Invalid_Date = None"

text \<open>
  \<^verbatim>\<open>date.setHours(h)\<close>: the local reading with its hour replaced, hours beyond 23 running
  over into the next days, taken back to a time value.
\<close>
fun setHours :: "externals \<Rightarrow> Date \<Rightarrow> int option \<Rightarrow> Date" where
  "setHours ext (Date t) (Some h) =
     (let lt = LocalTime ext t
      in TimeClip (UTC ext (MakeDate (Day lt)
           (MakeTime h (MinFromTime lt) (SecFromTime lt) (msFromTime lt)))))"
| "setHours ext (Date t) None = Invalid_Date"
| "setHours ext Invalid_Date h = Invalid_Date"

text \<open>
  \<^verbatim>\<open>extractDate\<close> has no \<^verbatim>\<open>throw\<close> and calls nothing that throws on its input; the result
  type still has the error side, so that "it fails" can be said, and denied.
\<close>
definition extractDate :: "externals \<Rightarrow> string \<Rightarrow> error + Date" where
  "extractDate ext dateString =
     (let d = parse ext dateString
      in Inr (setHours ext d (map_option (\<lambda>h. h + 10) (getHours ext d))))"

text \<open>
  \<^verbatim>\<open>str.replace(/\w\S*/g, f)\<close>: from the left, every word character opens a token that
  runs to the next white space; the token's first character goes to upper case and the
  rest to lower case. Everything between tokens is kept.
\<close>
function toTitleCase :: "string \<Rightarrow> string" where
  "toTitleCase [] = []"
| "toTitleCase (c # cs) =
     (if word c then
        toUpperCase [c] @ toLowerCase (takeWhile (\<lambda>x. \<not> space x) cs)
          @ toTitleCase (dropWhile (\<lambda>x. \<not> space x) cs)
      else c # toTitleCase cs)"
  by pat_completeness auto
termination
  by (relation "measure length") (auto simp: le_imp_less_Suc length_dropWhile_le)

section \<open>The importer (\<^verbatim>\<open>bank_australia.ts\<close>)\<close>

record CSVDataRow =
  Account_number :: string
  Transaction_type :: string
  Effective_date :: string
  Create_date :: string
  Reference_no :: string
  Debit_amount :: string
  Credit_amount :: string
  Balance_after_transfer :: string
  Description :: string
  Long_description :: string
  Cheque_number :: string
  Merchant_name :: string
  Category_list :: string

definition PayeeName :: string where
  "PayeeName = ''Bank Australia''"

definition CategoryOverrides :: "(string \<times> string) list" where
  "CategoryOverrides = [(''Liquor Store, Restricted'', ''Groceries'')]"

text \<open>
  \<^verbatim>\<open>CategoryOverrides\<close> is a plain object, so \<^verbatim>\<open>CategoryOverrides[key]\<close> also finds what
  every object inherits. For these twelve keys the value is a function or an object, not
  a string and not nullish: once the payee name is extracted, no cached category has it
  for a name, and \<^verbatim>\<open>createCategoryAsync\<close> hands it to the ledger's API as a category.
  What happens then is not in this repository, and the model stops there with
  \<open>Unmodelled\<close>.
\<close>
definition Object_prototype_keys :: "string list" where
  "Object_prototype_keys =
     [''constructor'', ''__defineGetter__'', ''__defineSetter__'', ''hasOwnProperty'',
      ''__lookupGetter__'', ''__lookupSetter__'', ''isPrototypeOf'',
      ''propertyIsEnumerable'', ''toString'', ''valueOf'', ''__proto__'',
      ''toLocaleString'']"

text \<open>\<^verbatim>\<open>xs.pop()\<close>, the value only: \<open>None\<close> is the \<^verbatim>\<open>undefined\<close> of an empty array.\<close>
definition pop :: "'a list \<Rightarrow> 'a option" where
  "pop xs = (case rev xs of [] \<Rightarrow> None | x # _ \<Rightarrow> Some x)"

subsection \<open>The patterns\<close>

text \<open>\<^verbatim>\<open>/Transfer to \w+ ([0-9]+)/\<close>\<close>
definition re_transfer_to :: regex where
  "re_transfer_to = seqs [Lit ''Transfer to '', Plus word, Lit '' '', Group 1 (Plus digit)]"

text \<open>\<^verbatim>\<open>/Ext TFR - NET# (\d+) to \d+ ([A-z\s]+) (?:[A-Z]+) - .*/\<close>\<close>
definition re_ext_tfr :: regex where
  "re_ext_tfr =
     seqs [Lit ''Ext TFR - NET# '', Group 1 (Plus digit), Lit '' to '', Plus digit, Lit '' '',
           Group 2 (Plus (\<lambda>c. A_to_z c \<or> space c)), Lit '' '', Plus upper, Lit '' - '',
           Star dot]"

text \<open>\<^verbatim>\<open>/Net tfr to \w+ (\d+)\. Rec No.: (\d+), .*/\<close>\<close>
definition re_net_tfr_to :: regex where
  "re_net_tfr_to =
     seqs [Lit ''Net tfr to '', Plus word, Lit '' '', Group 1 (Plus digit), Lit ''. Rec No'',
           Cls dot, Lit '': '', Group 2 (Plus digit), Lit '', '', Star dot]"

text \<open>\<^verbatim>\<open>/Osko Payment To ([\w\s]+) (?:[\w@.]+|Account [\w\s-]+|[\+\d-]+) Ref#(\d+)/\<close>\<close>
definition re_osko_to :: regex where
  "re_osko_to =
     seqs [Lit ''Osko Payment To '', Group 1 (Plus (\<lambda>c. word c \<or> space c)), Lit '' '',
           Alt (Plus (\<lambda>c. word c \<or> c = CHR ''@'' \<or> c = CHR ''.''))
             (Alt (Seq (Lit ''Account '') (Plus (\<lambda>c. word c \<or> space c \<or> c = CHR ''-'')))
                (Plus (\<lambda>c. c = CHR ''+'' \<or> digit c \<or> c = CHR ''-''))),
           Lit '' Ref#'', Group 2 (Plus digit)]"

text \<open>\<^verbatim>\<open>/Direct Debit ([\w\s]+) - .*/\<close>\<close>
definition re_direct_debit :: regex where
  "re_direct_debit =
     seqs [Lit ''Direct Debit '', Group 1 (Plus (\<lambda>c. word c \<or> space c)), Lit '' - '', Star dot]"

text \<open>\<^verbatim>\<open>/Osko Payment From ([\w\s]+)/\<close>\<close>
definition re_osko_from :: regex where
  "re_osko_from = seqs [Lit ''Osko Payment From '', Group 1 (Plus (\<lambda>c. word c \<or> space c))]"

text \<open>\<^verbatim>\<open>/Direct Credit (.+) - .*/\<close>\<close>
definition re_direct_credit :: regex where
  "re_direct_credit = seqs [Lit ''Direct Credit '', Group 1 (Plus dot), Lit '' - '', Star dot]"

text \<open>\<^verbatim>\<open>/Internet BPay to ([\w\s]+) - Biller Code (\d+) - Receipt No (\d+)/\<close>\<close>
definition re_bpay :: regex where
  "re_bpay =
     seqs [Lit ''Internet BPay to '', Group 1 (Plus (\<lambda>c. word c \<or> space c)),
           Lit '' - Biller Code '', Group 2 (Plus digit), Lit '' - Receipt No '',
           Group 3 (Plus digit)]"

text \<open>\<^verbatim>\<open>/VISA(?: Refund)?-(.*?)( HTTP| WWW|#)/\<close>\<close>
definition re_visa :: regex where
  "re_visa =
     seqs [Lit ''VISA'', Opt (Lit '' Refund''), Lit ''-'', Group 1 (LazyStar dot),
           Group 2 (Alt (Lit '' HTTP'') (Alt (Lit '' WWW'') (Lit ''#'')))]"

text \<open>\<^verbatim>\<open>/\*([\w]*[A-Z\. ]*)(?=\d|[A-Z][a-z])/\<close>\<close>
definition re_aggregator :: regex where
  "re_aggregator =
     seqs [Lit ''*'',
           Group 1 (Seq (Star word) (Star (\<lambda>c. upper c \<or> c = CHR ''.'' \<or> c = CHR '' ''))),
           Lookahead (Alt (Cls digit) (Seq (Cls upper) (Cls lower)))]"

text \<open>\<^verbatim>\<open>/Ref\.(\d+)/\<close>\<close>
definition re_ref :: regex where
  "re_ref = seqs [Lit ''Ref.'', Group 1 (Plus digit)]"

subsection \<open>Type \<^verbatim>\<open>ALL\<close>\<close>

text \<open>
  The lookup of a transfer's destination, the same code in both transfer branches: the
  mapped ledger account of the bank account number, then the payee bound to it.
\<close>
definition transferPayee_of ::
  "(string \<rightharpoonup> UUID) \<Rightarrow> Actual \<Rightarrow> string \<Rightarrow> error + IPayee" where
  "transferPayee_of idMapping a bankAccountNumber =
     (case truthy (idMapping bankAccountNumber) of
        None \<Rightarrow> Inl (AccountNotFoundError bankAccountNumber)
      | Some actualAccountId \<Rightarrow>
          (case find (\<lambda>p. transfer_acct p = Some actualAccountId) (payees a) of
             None \<Rightarrow>
               Inl (Error (''Unable to find transfer payee for account: '' @ actualAccountId
                 @ '', this should have been created when the account was created''))
           | Some transferPayee \<Rightarrow> Inr transferPayee))"

definition parseTransactionTypeAllAsync ::
  "externals \<Rightarrow> (string \<rightharpoonup> UUID) \<Rightarrow> Actual \<Rightarrow> CSVDataRow \<Rightarrow> ITransaction
     \<Rightarrow> error + (ITransaction option \<times> Actual)" where
  "parseTransactionTypeAllAsync ext idMapping a row transaction =
     (let long = Long_description row;
          uncleared = Inr (Some (transaction\<lparr>cleared := Some False\<rparr>), a)
      in
      if Description row = ''Internet Transfer'' then
        (if startsWith long ''Transfer to '' then
           (case exec re_transfer_to long of
              None \<Rightarrow> Inl (Error (''Unable to extract bank account number from transfer: '' @ long))
            | Some matches \<Rightarrow>
                (case transferPayee_of idMapping a (grp matches 1) of
                   Inl e \<Rightarrow> Inl e
                 | Inr transferPayee \<Rightarrow>
                     Inr (Some (transaction\<lparr>payee := pay_id transferPayee\<rparr>), a)))
         else if startsWith long ''Received from'' then Inr (None, a)
         else uncleared)
      else if long \<in> set [''Interest Credit'', ''Credit Card Interest'', ''Cash Advance Fee''] then
        (case
           (case find (\<lambda>c. cat_name c = ''Interest'') (categories a) of
              Some c \<Rightarrow> Inr (c, a)
            | None \<Rightarrow> createCategoryAsync ext a (CategoryName ''Interest''))
         of
           Inl e \<Rightarrow> Inl e
         | Inr (c, a') \<Rightarrow>
             Inr (Some (transaction\<lparr>payee_name := Some PayeeName, category := cat_id c\<rparr>), a'))
      else if Description row = ''Internet Ext Transfer'' then
        (case exec re_ext_tfr long of
           None \<Rightarrow>
             Inl (Error (''Unable to extract reference and payee details from transfer: '' @ long))
         | Some matches \<Rightarrow>
             Inr (Some (transaction\<lparr>payee_name := Some (grp matches 2),
                                     imported_id := Some (grp matches 1)\<rparr>), a))
      else if startsWith long ''Net tfr'' then
        (if startsWith long ''Net tfr to'' then
           (case exec re_net_tfr_to long of
              None \<Rightarrow>
                Inl (Error (''Unable to extract reference and payee details from transfer: '' @ long))
            | Some matches \<Rightarrow>
                (case transferPayee_of idMapping a (grp matches 1) of
                   Inl e \<Rightarrow> Inl e
                 | Inr transferPayee \<Rightarrow>
                     Inr (Some (transaction\<lparr>payee := pay_id transferPayee,
                                             imported_id := Some (grp matches 2)\<rparr>), a)))
         else if startsWith long ''Net tfr received from'' then Inr (None, a)
         else uncleared)
      else uncleared)"

subsection \<open>Types \<^verbatim>\<open>ALL WDLS\<close>, \<^verbatim>\<open>ALL DEPOSITS\<close> and \<^verbatim>\<open>BPAY\<close>\<close>

definition parseTransactionTypeAllWdls ::
  "CSVDataRow \<Rightarrow> ITransaction \<Rightarrow> error + ITransaction option" where
  "parseTransactionTypeAllWdls row transaction =
     (let long = Long_description row in
      if startsWith long ''Osko Payment To'' then
        (case exec re_osko_to long of
           None \<Rightarrow>
             Inl (Error (''Unable to extract payee name and reference number from Osko payment: ''
               @ long))
         | Some matches \<Rightarrow>
             Inr (Some (transaction\<lparr>payee_name := Some (grp matches 1),
                                     imported_id := Some (grp matches 2)\<rparr>)))
      else if startsWith long ''Direct Debit'' then
        (case exec re_direct_debit long of
           None \<Rightarrow> Inl (Error (''Unable to extract payee name from direct debit: '' @ long))
         | Some matches \<Rightarrow> Inr (Some (transaction\<lparr>payee_name := Some (grp matches 1)\<rparr>)))
      else
        Inl (Error (''Unhandled all wdls transaction type: '' @ Description row @ '' | '' @ long)))"

definition parseTransactionTypeAllDeposits ::
  "CSVDataRow \<Rightarrow> ITransaction \<Rightarrow> error + ITransaction option" where
  "parseTransactionTypeAllDeposits row transaction =
     (let long = Long_description row in
      if startsWith long ''Osko Payment From'' then
        (case exec re_osko_from long of
           None \<Rightarrow> Inl (Error (''Unable to extract payee name from Osko payment: '' @ long))
         | Some matches \<Rightarrow> Inr (Some (transaction\<lparr>payee_name := Some (grp matches 1)\<rparr>)))
      else if startsWith long ''Direct Credit'' then
        (case exec re_direct_credit long of
           None \<Rightarrow> Inl (Error (''Unable to extract payee name from direct credit: '' @ long))
         | Some matches \<Rightarrow> Inr (Some (transaction\<lparr>payee_name := Some (grp matches 1)\<rparr>)))
      else if startsWith long ''SWIFT'' then
        Inr (Some (transaction\<lparr>payee_name := Some (Description row)\<rparr>))
      else
        Inl (Error (''Unhandled all deposits transaction type: '' @ Description row @ '' | ''
          @ long)))"

definition parseTransactionTypeBPay ::
  "CSVDataRow \<Rightarrow> ITransaction \<Rightarrow> error + ITransaction option" where
  "parseTransactionTypeBPay row transaction =
     (let long = Long_description row in
      case exec re_bpay long of
        None \<Rightarrow>
          Inl (Error (''Unable to extract payee name and reference number from BPay payment: ''
            @ long))
      | Some matches \<Rightarrow>
          Inr (Some (transaction\<lparr>payee_name := Some (grp matches 1),
                                  imported_id := Some (grp matches 2 @ ''-'' @ grp matches 3)\<rparr>)))"

subsection \<open>Type \<^verbatim>\<open>VISA\<close>\<close>

text \<open>
  \<^verbatim>\<open>CategoryOverrides[categoryList] ?? categoryList.split(',').pop()?.trim()\<close>, for a
  category list that is not a key every object inherits.
\<close>
definition category_name_of :: "string \<Rightarrow> string option" where
  "category_name_of categoryList =
     (case map_of CategoryOverrides categoryList of
        Some n \<Rightarrow> Some n
      | None \<Rightarrow> map_option trim (pop (split (CHR '','') categoryList)))"

text \<open>The payee name: from the merchant name, or else from the long description.\<close>
definition visa_payee_name :: "CSVDataRow \<Rightarrow> error + string" where
  "visa_payee_name row =
     (let merchantName = Merchant_name row in
      if merchantName \<noteq> [] \<and> merchantName \<noteq> ''PayPal'' \<and> merchantName \<noteq> ''Square'' then
        (case split (CHR ''('') (Merchant_name row) of
           [] \<Rightarrow> Inl (Error ''TypeError'')
         | part # _ \<Rightarrow> Inr (trim part))
      else
        (let r = (if merchantName = ''PayPal'' \<or> merchantName = ''Square''
                  then re_aggregator else re_visa)
         in case exec r (Long_description row) of
              None \<Rightarrow>
                Inl (Error (''Unable to extract payee name from VISA payment: ''
                  @ Long_description row))
            | Some m \<Rightarrow> Inr (trim (toTitleCase (grp m 1)))))"

text \<open>
  The category: the cached one of that name, else a new one when the name is not empty.
\<close>
definition visa_category ::
  "externals \<Rightarrow> Actual \<Rightarrow> string option \<Rightarrow> error + (ICategory option \<times> Actual)" where
  "visa_category ext a category_name =
     (case find (\<lambda>c. Some (cat_name c) = category_name) (categories a) of
        Some c \<Rightarrow> Inr (Some c, a)
      | None \<Rightarrow>
          (case category_name of
             None \<Rightarrow> Inr (None, a)
           | Some n \<Rightarrow>
               if n = [] then Inr (None, a)
               else (case createCategoryAsync ext a (CategoryName n) of
                       Inl e \<Rightarrow> Inl e
                     | Inr (c, a') \<Rightarrow> Inr (Some c, a'))))"

definition parseTransactionTypeVisaAsync ::
  "externals \<Rightarrow> Actual \<Rightarrow> CSVDataRow \<Rightarrow> ITransaction
     \<Rightarrow> error + (ITransaction option \<times> Actual)" where
  "parseTransactionTypeVisaAsync ext a row transaction =
     (let categoryList = Category_list row in
      case visa_payee_name row of
        Inl e \<Rightarrow> Inl e
      | Inr name \<Rightarrow>
          if categoryList \<in> set Object_prototype_keys then
            (if \<not> isInitialised a then
               Inl (Error ''Actual not initialised, call initialiseActual() first'')
             else Inl (Unmodelled categoryList))
          else
            (let category_name = category_name_of categoryList in
             case visa_category ext a category_name of
               Inl e \<Rightarrow> Inl e
             | Inr (cat, a') \<Rightarrow>
                 (let ref = (case exec re_ref (Long_description row) of
                               None \<Rightarrow> None
                             | Some m \<Rightarrow> Some (grp m 1))
                  in Inr (Some (transaction\<lparr>payee_name := Some name,
                                  category := (case cat of None \<Rightarrow> None | Some c \<Rightarrow> cat_id c),
                                  imported_id := ref\<rparr>), a'))))"

subsection \<open>One row\<close>

text \<open>
  \<^verbatim>\<open>csvDataRowToTransactionAsync\<close>. \<open>Inr (None, a)\<close> is the \<^verbatim>\<open>undefined\<close> of a row that is
  left out, \<open>Inr (Some t, a)\<close> a transaction to import, \<open>Inl e\<close> an exception; the second
  component is the ledger state after the row. The \<^verbatim>\<open>catch\<close> of the source logs the row
  and throws the same exception again.
\<close>
definition csvDataRowToTransactionAsync ::
  "externals \<Rightarrow> (string \<rightharpoonup> UUID) \<Rightarrow> Actual \<Rightarrow> CSVDataRow
     \<Rightarrow> error + (ITransaction option \<times> Actual)" where
  "csvDataRowToTransactionAsync ext idMapping a row =
     (case extractDate ext (Effective_date row) of
        Inl e \<Rightarrow> Inl e
      | Inr d \<Rightarrow>
          (let debit = amountToInteger_parseFloat ext (Debit_amount row);
               credit = amountToInteger_parseFloat ext (Credit_amount row)
           in
           if debit = Num 0 \<and> credit = Num 0 then Inr (None, a)
           else
             (let notes = join ''|'' [Long_description row, Merchant_name row, Category_list row]
              in
              case truthy (idMapping (Account_number row)) of
                None \<Rightarrow> Inl (AccountNotFoundError (Account_number row))
              | Some acct \<Rightarrow>
                  (let transaction =
                         \<lparr>account = acct, date = d, amount = Some (minus_number credit debit),
                          payee = None, payee_name = None,
                          imported_payee = Some (Long_description row), category = None,
                          notes' = Some notes, imported_id = None, cleared = Some True\<rparr>;
                       type = Transaction_type row
                   in
                   if type = ''ALL'' then
                     parseTransactionTypeAllAsync ext idMapping a row transaction
                   else if type = ''ALL WDLS'' then
                     (case parseTransactionTypeAllWdls row transaction of
                        Inl e \<Rightarrow> Inl e | Inr t \<Rightarrow> Inr (t, a))
                   else if type = ''ALL DEPOSITS'' then
                     (case parseTransactionTypeAllDeposits row transaction of
                        Inl e \<Rightarrow> Inl e | Inr t \<Rightarrow> Inr (t, a))
                   else if type = ''BPAY'' then
                     (case parseTransactionTypeBPay row transaction of
                        Inl e \<Rightarrow> Inl e | Inr t \<Rightarrow> Inr (t, a))
                   else if type = ''VISA'' then
                     parseTransactionTypeVisaAsync ext a row transaction
                   else Inl (Error (''Unknown transaction type: '' @ type))))))"

text \<open>
  The loop of \<^verbatim>\<open>importTransactionsAsync\<close> over the rows of a file: the transactions in
  file order, or the first exception, which ends the run.
\<close>
fun rows_to_transactions ::
  "externals \<Rightarrow> (string \<rightharpoonup> UUID) \<Rightarrow> Actual \<Rightarrow> CSVDataRow list \<Rightarrow> ITransaction list
     \<Rightarrow> error + (ITransaction list \<times> Actual)" where
  "rows_to_transactions ext idMapping a [] transactions = Inr (transactions, a)"
| "rows_to_transactions ext idMapping a (row # rows) transactions =
     (case csvDataRowToTransactionAsync ext idMapping a row of
        Inl e \<Rightarrow> Inl e
      | Inr (None, a') \<Rightarrow> rows_to_transactions ext idMapping a' rows transactions
      | Inr (Some t, a') \<Rightarrow> rows_to_transactions ext idMapping a' rows (transactions @ [t]))"

section \<open>Example data\<close>

text \<open>
  A ledger with two accounts, their transfer payees, one expense and one income
  category; the mapping of two bank account numbers; and the external functions at the
  strings the examples use. The date parser reads the one date of the examples and
  answers Invalid Date otherwise, as date-fns does for text that is not a date; the host's
  clock is on universal time.
\<close>

definition example_parse :: "string \<Rightarrow> Date" where
  "example_parse s =
     (if s = ''12:00am Sat 31 December, 2022'' then Date 1672444800000 else Invalid_Date)"

definition example_amount :: "string \<Rightarrow> number" where
  "example_amount s =
     (if s = ''0.0'' then Num 0 else if s = ''10.00'' then Num 1000 else NaN)"

definition example_createCategory :: "ICategory \<Rightarrow> error + UUID" where
  "example_createCategory c = Inr ''cccccccc-0000-0000-0000-000000000009''"

definition example_ext :: externals where
  "example_ext =
     \<lparr>parse = example_parse, amountToInteger_parseFloat = example_amount,
      createCategory = example_createCategory, LocalTime = (\<lambda>t. t), UTC = (\<lambda>t. t)\<rparr>"

definition example_mapping :: "string \<rightharpoonup> UUID" where
  "example_mapping =
     map_of [(''12345678'', ''aaaaaaaa-0000-0000-0000-000000000001''),
             (''87654321'', ''aaaaaaaa-0000-0000-0000-000000000002'')]"

definition example_actual :: Actual where
  "example_actual =
     \<lparr>isInitialised = True,
      payees =
        [\<lparr>pay_id = Some ''bbbbbbbb-0000-0000-0000-000000000001'', pay_name = ''Everyday'',
          pay_category = None,
          transfer_acct = Some ''aaaaaaaa-0000-0000-0000-000000000001''\<rparr>,
         \<lparr>pay_id = Some ''bbbbbbbb-0000-0000-0000-000000000002'', pay_name = ''Savings'',
          pay_category = None,
          transfer_acct = Some ''aaaaaaaa-0000-0000-0000-000000000002''\<rparr>],
      categories =
        [\<lparr>cat_id = Some ''cccccccc-0000-0000-0000-000000000001'', cat_name = ''Groceries'',
          group_id = ''dddddddd-0000-0000-0000-000000000001'', is_income = Some False\<rparr>,
         \<lparr>cat_id = Some ''cccccccc-0000-0000-0000-000000000002'', cat_name = ''Salary'',
          group_id = ''dddddddd-0000-0000-0000-000000000002'', is_income = Some True\<rparr>],
      defaultCategoryGroupId = Some ''dddddddd-0000-0000-0000-000000000001'',
      incomeCategoryGroupId = Some ''dddddddd-0000-0000-0000-000000000002''\<rparr>"

text \<open>A card purchase of 10.00, the third example row of the source's comment on the file format.\<close>
definition example_row :: CSVDataRow where
  "example_row =
     \<lparr>Account_number = ''12345678'', Transaction_type = ''VISA'',
      Effective_date = ''12:00am Sat 31 December, 2022'',
      Create_date = ''12:00am Sat 31 December, 2022'', Reference_no = [],
      Debit_amount = ''10.00'', Credit_amount = ''0.0'',
      Balance_after_transfer = ''-1234.12'', Description = ''PURCHASE'',
      Long_description =
        ''VISA-CLOUDFLARE HTTPSWWW.CLOUUSFRGN AMT-11.1111111#123455(Ref.0123456789)'',
      Cheque_number = ''0'', Merchant_name = [], Category_list = []\<rparr>"

text \<open>The transaction every example below starts from: the row's fixed part.\<close>
definition example_base :: "string \<Rightarrow> ITransaction" where
  "example_base long =
     \<lparr>account = ''aaaaaaaa-0000-0000-0000-000000000001'', date = Date 1672480800000,
      amount = Some (Num (- 1000)), payee = None, payee_name = None,
      imported_payee = Some long, category = None, notes' = Some (long @ ''||''),
      imported_id = None, cleared = Some True\<rparr>"

text \<open>Transfers between the two accounts, as rows of the first account.\<close>
definition transfer_row :: "string \<Rightarrow> string \<Rightarrow> CSVDataRow" where
  "transfer_row description long =
     example_row\<lparr>Transaction_type := ''ALL'', Description := description,
                  Long_description := long\<rparr>"





text \<open>A remote ledger that refuses every new category but one named Groceries.\<close>
definition groceries_only_createCategory :: "ICategory \<Rightarrow> error + UUID" where
  "groceries_only_createCategory c =
     (if cat_name c = ''Groceries'' then example_createCategory c
      else Inl (Error ''refused''))"

section \<open>Captures\<close>

text \<open>A match only adds captures, and it binds every group that lies on all its paths.\<close>

lemma rmatch_keeps:
  "(rest, caps') \<in> set (rmatch r (s, caps)) \<Longrightarrow> map_of caps k \<noteq> None
   \<Longrightarrow> map_of caps' k \<noteq> None"
proof (induction r arbitrary: s caps rest caps')
  case (Seq a b)
  then show ?case by fastforce
next
  case (Group n a)
  then show ?case by fastforce
next
  case (Alt a b)
  then show ?case by fastforce
next
  case (Opt a)
  then show ?case by fastforce
qed (auto split: option.splits list.splits if_splits)

lemma rmatch_binds:
  "binds n r \<Longrightarrow> (rest, caps') \<in> set (rmatch r (s, caps)) \<Longrightarrow> map_of caps' n \<noteq> None"
proof (induction r arbitrary: s caps rest caps')
  case (Seq a b)
  from Seq.prems(2) obtain mid capsm where
    m: "(mid, capsm) \<in> set (rmatch a (s, caps))" "(rest, caps') \<in> set (rmatch b (mid, capsm))"
    by auto
  from Seq.prems(1) have "binds n a \<or> binds n b"
    by simp
  then show ?case
  proof
    assume "binds n a"
    with m(1) have "map_of capsm n \<noteq> None"
      using Seq.IH(1) by blast
    with m(2) show ?thesis
      using rmatch_keeps by blast
  next
    assume "binds n b"
    with m(2) show ?thesis using Seq.IH(2) by blast
  qed
next
  case (Group k a)
  then show ?case by fastforce
next
  case (Alt a b)
  then show ?case by fastforce
qed auto

lemma exec_binds:
  assumes "binds n r" and "exec r s = Some m"
  shows "\<exists>g. map_of m n = Some g"
proof -
  have "\<exists>s' rest. (rest, m) \<in> set (rmatch r (s', []))"
    using assms(2)
  proof (induction s)
    case Nil
    then show ?case by (auto split: list.splits) (metis list.set_intros(1))
  next
    case (Cons c cs)
    then show ?case by (auto split: list.splits) (metis list.set_intros(1))
  qed
  then have "map_of m n \<noteq> None"
    using assms(1) rmatch_binds by blast
  then show ?thesis
    by blast
qed

lemma patterns_bind:
  "binds 1 re_transfer_to" "binds 1 re_ext_tfr" "binds 2 re_ext_tfr"
  "binds 1 re_net_tfr_to" "binds 2 re_net_tfr_to" "binds 1 re_osko_to" "binds 2 re_osko_to"
  "binds 1 re_direct_debit" "binds 1 re_osko_from" "binds 1 re_direct_credit"
  "binds 1 re_bpay" "binds 2 re_bpay" "binds 3 re_bpay" "binds 1 re_visa"
  "binds 1 re_aggregator" "binds 1 re_ref"
  by (simp_all add: re_transfer_to_def re_ext_tfr_def re_net_tfr_to_def re_osko_to_def
        re_direct_debit_def re_osko_from_def re_direct_credit_def re_bpay_def re_visa_def
        re_aggregator_def re_ref_def)

text \<open>The patterns on the examples that the comments of the source give for them.\<close>

lemma documented_examples:
  "visa_payee_name (example_row\<lparr>Merchant_name := ''PayPal'',
       Long_description := ''VISA-PAYPAL *STORE NAME 9999999 AU#123456(Ref.0123456781)''\<rparr>)
     = Inr ''Store Name''"
  "visa_payee_name (example_row\<lparr>Merchant_name := ''Square'',
       Long_description :=
         ''VISA-SQ *LOCAL BREWERY Sydney AU#0123456(Ref.0123456789) Android Pay''\<rparr>)
     = Inr ''Local Brewery''"
  "visa_payee_name (example_row\<lparr>Merchant_name := ''My Supermarket (Sydney)''\<rparr>)
     = Inr ''My Supermarket''"
  "map_option (\<lambda>m. (grp m 1, grp m 2))
     (exec re_ext_tfr
        ''Ext TFR - NET# 1234567890 to 3333333 Other Company Name ABC - Location Information'')
     = Some (''1234567890'', ''Other Company Name'')"
  "map_option (\<lambda>m. (grp m 1, grp m 2))
     (exec re_osko_to ''Osko Payment To Z PERSON +61-400000000 Ref#123456789'')
     = Some (''Z PERSON'', ''123456789'')"
  "map_option (\<lambda>m. (grp m 1, grp m 2))
     (exec re_osko_to
        ''Osko Payment To Legitimate Business Account 123456 BANK - LOCATION Ref#123456789'')
     = Some (''Legitimate Business'', ''123456789'')"
  "map_option (\<lambda>m. (grp m 1, grp m 2))
     (exec re_net_tfr_to
        ''Net tfr to SAV 5555555. Rec No.: 1234567890, Some transaction description'')
     = Some (''5555555'', ''1234567890'')"
  by code_simp+

section \<open>What every branch leaves alone\<close>

text \<open>
  Each parser returns a copy of the transaction it was given with some fields set; none
  of them sets the notes or the imported payee.
\<close>

lemma all_frame:
  "parseTransactionTypeAllAsync ext idMapping a row t = Inr (Some t', a')
   \<Longrightarrow> notes' t' = notes' t \<and> imported_payee t' = imported_payee t"
  by (auto simp: parseTransactionTypeAllAsync_def Let_def
           split: if_splits option.splits sum.splits prod.splits)

lemma wdls_frame:
  "parseTransactionTypeAllWdls row t = Inr (Some t')
   \<Longrightarrow> notes' t' = notes' t \<and> imported_payee t' = imported_payee t"
  by (auto simp: parseTransactionTypeAllWdls_def Let_def split: if_splits option.splits)

lemma deposits_frame:
  "parseTransactionTypeAllDeposits row t = Inr (Some t')
   \<Longrightarrow> notes' t' = notes' t \<and> imported_payee t' = imported_payee t"
  by (auto simp: parseTransactionTypeAllDeposits_def Let_def split: if_splits option.splits)

lemma bpay_frame:
  "parseTransactionTypeBPay row t = Inr (Some t')
   \<Longrightarrow> notes' t' = notes' t \<and> imported_payee t' = imported_payee t"
  by (auto simp: parseTransactionTypeBPay_def Let_def split: if_splits option.splits)

lemma visa_frame:
  "parseTransactionTypeVisaAsync ext a row t = Inr (Some t', a')
   \<Longrightarrow> notes' t' = notes' t \<and> imported_payee t' = imported_payee t"
  by (auto simp: parseTransactionTypeVisaAsync_def Let_def
           split: if_splits option.splits sum.splits prod.splits)

lemma row_frame:
  assumes "csvDataRowToTransactionAsync ext idMapping a row = Inr (Some t, a')"
  shows "notes' t
           = Some (Long_description row @ ''|'' @ Merchant_name row @ ''|'' @ Category_list row)
       \<and> imported_payee t = Some (Long_description row)"
  using assms
  by (auto simp: csvDataRowToTransactionAsync_def extractDate_def Let_def
           split: if_splits option.splits sum.splits
           dest!: all_frame wdls_frame deposits_frame bpay_frame visa_frame)

section \<open>The zero-amount filter\<close>

text \<open>
  C3. A row whose debit amount and credit amount both come out as zero is left out: the
  result is \<^verbatim>\<open>undefined\<close>, no exception is thrown and the ledger state is as before,
  whatever the row's transaction type and its other fields are.
\<close>

theorem zero_amount_row_suppressed:
  assumes "amountToInteger_parseFloat ext (Debit_amount row) = Num 0"
      and "amountToInteger_parseFloat ext (Credit_amount row) = Num 0"
  shows "csvDataRowToTransactionAsync ext idMapping a row = Inr (None, a)"
  using assms by (simp add: csvDataRowToTransactionAsync_def extractDate_def Let_def)

theorem zero_amount_row_suppressed_witness:
  "amountToInteger_parseFloat example_ext
     (Debit_amount (example_row\<lparr>Debit_amount := ''0.0''\<rparr>)) = Num 0
   \<and> amountToInteger_parseFloat example_ext
       (Credit_amount (example_row\<lparr>Debit_amount := ''0.0''\<rparr>)) = Num 0
   \<and> csvDataRowToTransactionAsync example_ext example_mapping example_actual
        (example_row\<lparr>Debit_amount := ''0.0''\<rparr>) = Inr (None, example_actual)"
proof -
  have d: "amountToInteger_parseFloat example_ext
             (Debit_amount (example_row\<lparr>Debit_amount := ''0.0''\<rparr>)) = Num 0"
    by (simp add: example_ext_def example_amount_def)
  have c: "amountToInteger_parseFloat example_ext
             (Credit_amount (example_row\<lparr>Debit_amount := ''0.0''\<rparr>)) = Num 0"
    by (simp add: example_ext_def example_amount_def example_row_def)
  from d c zero_amount_row_suppressed [OF d c] show ?thesis by simp
qed


section \<open>Transfers between accounts\<close>

lemma startsWithE: "startsWith s p \<Longrightarrow> \<exists>r. s = p @ r"
  by (metis startsWith_def append_take_drop_id)

text \<open>
  C1, as the code has it. The transfer branch is entered only under the short description
  \<open>Internet Transfer\<close>, and the row reaches the branch only when it is not a
  zero-amount row and its own account number is mapped. For such a row of type \<open>ALL\<close>
  whose long description starts with \<open>Transfer to \<close>, whose destination account number
  (group 1 of the pattern) is mapped, and for whose ledger account a transfer payee
  exists, the result is a transaction whose payee is that payee's id, with no category
  and cleared.
\<close>

theorem transfer_to_candidate:
  assumes "Transaction_type row = ''ALL''"
      and "Description row = ''Internet Transfer''"
      and "startsWith (Long_description row) ''Transfer to ''"
      and "exec re_transfer_to (Long_description row) = Some m"
      and "idMapping (grp m 1) = Some dest" and "dest \<noteq> []"
      and "find (\<lambda>p. transfer_acct p = Some dest) (payees a) = Some p"
      and "\<not> (amountToInteger_parseFloat ext (Debit_amount row) = Num 0
             \<and> amountToInteger_parseFloat ext (Credit_amount row) = Num 0)"
      and "idMapping (Account_number row) = Some acct" and "acct \<noteq> []"
  shows "\<exists>t. csvDataRowToTransactionAsync ext idMapping a row = Inr (Some t, a)
           \<and> payee t = pay_id p \<and> category t = None \<and> cleared t = Some True"
  using assms
  by (auto simp: csvDataRowToTransactionAsync_def extractDate_def Let_def truthy_def
        parseTransactionTypeAllAsync_def transferPayee_of_def)

theorem transfer_to_candidate_witness:
  "\<exists>t. csvDataRowToTransactionAsync example_ext example_mapping example_actual
          (transfer_row ''Internet Transfer'' ''Transfer to SAV 87654321'')
          = Inr (Some t, example_actual)
       \<and> payee t = Some ''bbbbbbbb-0000-0000-0000-000000000002''
       \<and> category t = None \<and> cleared t = Some True"
proof -
  let ?row = "transfer_row ''Internet Transfer'' ''Transfer to SAV 87654321''"
  let ?p = "\<lparr>pay_id = Some ''bbbbbbbb-0000-0000-0000-000000000002'', pay_name = ''Savings'',
             pay_category = None,
             transfer_acct = Some ''aaaaaaaa-0000-0000-0000-000000000002''\<rparr>"
  have 1: "Transaction_type ?row = ''ALL''" and 2: "Description ?row = ''Internet Transfer''"
    by (simp_all add: transfer_row_def)
  have 3: "startsWith (Long_description ?row) ''Transfer to ''"
    by (simp add: transfer_row_def startsWith_def)
  have 4: "exec re_transfer_to (Long_description ?row) = Some [(1, ''87654321'')]"
    by code_simp
  have 5: "example_mapping (grp [(1, ''87654321'')] 1)
             = Some ''aaaaaaaa-0000-0000-0000-000000000002''"
    by (simp add: example_mapping_def grp_def)
  have 6: "''aaaaaaaa-0000-0000-0000-000000000002'' \<noteq> []"
    by simp
  have 7: "find (\<lambda>p. transfer_acct p = Some ''aaaaaaaa-0000-0000-0000-000000000002'')
             (payees example_actual) = Some ?p"
    by (simp add: example_actual_def)
  have 8: "\<not> (amountToInteger_parseFloat example_ext (Debit_amount ?row) = Num 0
             \<and> amountToInteger_parseFloat example_ext (Credit_amount ?row) = Num 0)"
    by (simp add: transfer_row_def example_row_def example_ext_def example_amount_def)
  have 9: "example_mapping (Account_number ?row)
             = Some ''aaaaaaaa-0000-0000-0000-000000000001''"
    by (simp add: transfer_row_def example_row_def example_mapping_def)
  have 10: "''aaaaaaaa-0000-0000-0000-000000000001'' \<noteq> []"
    by simp
  from transfer_to_candidate [of ?row _ example_mapping _ example_actual ?p example_ext,
         OF 1 2 3 4 5 6 7 8 9 10]
  show ?thesis by simp
qed

text \<open>
  C1 as stated fails: under another short description the same long description, with
  its destination mapped and its transfer payee present, falls to the catch-all and
  gives a transaction without payee that is not cleared.
\<close>

theorem transfer_to_counterexample:
  "Transaction_type (transfer_row ''Funds Transfer'' ''Transfer to SAV 87654321'') = ''ALL''
   \<and> startsWith (Long_description (transfer_row ''Funds Transfer'' ''Transfer to SAV 87654321''))
        ''Transfer to''
   \<and> exec re_transfer_to
        (Long_description (transfer_row ''Funds Transfer'' ''Transfer to SAV 87654321''))
        = Some [(1, ''87654321'')]
   \<and> transferPayee_of example_mapping example_actual ''87654321''
        = Inr \<lparr>pay_id = Some ''bbbbbbbb-0000-0000-0000-000000000002'', pay_name = ''Savings'',
               pay_category = None,
               transfer_acct = Some ''aaaaaaaa-0000-0000-0000-000000000002''\<rparr>
   \<and> csvDataRowToTransactionAsync example_ext example_mapping example_actual
        (transfer_row ''Funds Transfer'' ''Transfer to SAV 87654321'')
        = Inr (Some \<lparr>account = ''aaaaaaaa-0000-0000-0000-000000000001'',
                     date = Date 1672480800000, amount = Some (Num (- 1000)),
                     payee = None, payee_name = None,
                     imported_payee = Some ''Transfer to SAV 87654321'', category = None,
                     notes' = Some ''Transfer to SAV 87654321||'', imported_id = None,
                     cleared = Some False\<rparr>,
               example_actual)"
  by code_simp

text \<open>
  C2, as the code has it. A long description that starts with \<open>Received from\<close> is left
  out under the short description \<open>Internet Transfer\<close>; one that starts with
  \<open>Net tfr received from\<close> is left out under any short description other than
  \<open>Internet Transfer\<close> and \<open>Internet Ext Transfer\<close>. Then the parser for type \<open>ALL\<close>
  returns \<^verbatim>\<open>undefined\<close> and leaves the ledger state alone, and so does the whole
  classification of a row of type \<open>ALL\<close> whose own account number is mapped.
\<close>

theorem received_transfer_suppressed:
  assumes "Description row = ''Internet Transfer''
             \<and> startsWith (Long_description row) ''Received from''
           \<or> Description row \<noteq> ''Internet Transfer''
             \<and> Description row \<noteq> ''Internet Ext Transfer''
             \<and> startsWith (Long_description row) ''Net tfr received from''"
  shows "parseTransactionTypeAllAsync ext idMapping a row t = Inr (None, a)
       \<and> (Transaction_type row = ''ALL'' \<and> truthy (idMapping (Account_number row)) \<noteq> None
            \<longrightarrow> csvDataRowToTransactionAsync ext idMapping a row = Inr (None, a))"
proof -
  have p: "parseTransactionTypeAllAsync ext idMapping a row t = Inr (None, a)" for t
    using assms
  proof
    assume h: "Description row = ''Internet Transfer''
             \<and> startsWith (Long_description row) ''Received from''"
    then obtain r where "Long_description row = ''Received from'' @ r"
      using startsWithE by blast
    with h show ?thesis
      by (simp add: parseTransactionTypeAllAsync_def startsWith_def)
  next
    assume h: "Description row \<noteq> ''Internet Transfer''
             \<and> Description row \<noteq> ''Internet Ext Transfer''
             \<and> startsWith (Long_description row) ''Net tfr received from''"
    then obtain r where "Long_description row = ''Net tfr received from'' @ r"
      using startsWithE by blast
    with h show ?thesis
      by (simp add: parseTransactionTypeAllAsync_def startsWith_def)
  qed
  show ?thesis
    by (auto simp: p csvDataRowToTransactionAsync_def extractDate_def Let_def)
qed

theorem received_transfer_suppressed_witness:
  "parseTransactionTypeAllAsync example_ext example_mapping example_actual
     (transfer_row ''Internet Transfer'' ''Received from SAV 87654321'')
     (example_base ''Received from SAV 87654321'') = Inr (None, example_actual)
   \<and> csvDataRowToTransactionAsync example_ext example_mapping example_actual
       (transfer_row ''Internet Transfer'' ''Received from SAV 87654321'')
       = Inr (None, example_actual)
   \<and> csvDataRowToTransactionAsync example_ext example_mapping example_actual
       (transfer_row ''Transfer'' ''Net tfr received from SAV 87654321'')
       = Inr (None, example_actual)"
proof -
  let ?r1 = "transfer_row ''Internet Transfer'' ''Received from SAV 87654321''"
  let ?r2 = "transfer_row ''Transfer'' ''Net tfr received from SAV 87654321''"
  have 1: "Description ?r1 = ''Internet Transfer''
             \<and> startsWith (Long_description ?r1) ''Received from''
           \<or> Description ?r1 \<noteq> ''Internet Transfer''
             \<and> Description ?r1 \<noteq> ''Internet Ext Transfer''
             \<and> startsWith (Long_description ?r1) ''Net tfr received from''"
    by (simp add: transfer_row_def startsWith_def)
  have 2: "Description ?r2 = ''Internet Transfer''
             \<and> startsWith (Long_description ?r2) ''Received from''
           \<or> Description ?r2 \<noteq> ''Internet Transfer''
             \<and> Description ?r2 \<noteq> ''Internet Ext Transfer''
             \<and> startsWith (Long_description ?r2) ''Net tfr received from''"
    by (simp add: transfer_row_def startsWith_def)
  have 3: "Transaction_type ?r1 = ''ALL'' \<and> truthy (example_mapping (Account_number ?r1)) \<noteq> None"
    and 4: "Transaction_type ?r2 = ''ALL'' \<and> truthy (example_mapping (Account_number ?r2)) \<noteq> None"
    by (simp_all add: transfer_row_def example_row_def example_mapping_def truthy_def)
  from received_transfer_suppressed
         [of ?r1 example_ext example_mapping example_actual
             "example_base ''Received from SAV 87654321''", OF 1]
       received_transfer_suppressed
         [of ?r2 example_ext example_mapping example_actual
             "example_base ''Net tfr received from SAV 87654321''", OF 2]
       3 4
  show ?thesis by simp
qed

text \<open>
  C2 as stated fails: a long description that starts with \<open>Received from\<close> under another
  short description, and one that starts with \<open>Net tfr received from\<close> under the short
  description \<open>Internet Transfer\<close>, both fall to the catch-all and give a transaction
  that is not cleared.
\<close>

theorem received_transfer_counterexample:
  "Transaction_type (transfer_row ''Deposit'' ''Received from Bob'') = ''ALL''
   \<and> startsWith (Long_description (transfer_row ''Deposit'' ''Received from Bob''))
        ''Received from''
   \<and> csvDataRowToTransactionAsync example_ext example_mapping example_actual
        (transfer_row ''Deposit'' ''Received from Bob'')
        = Inr (Some \<lparr>account = ''aaaaaaaa-0000-0000-0000-000000000001'',
                     date = Date 1672480800000, amount = Some (Num (- 1000)),
                     payee = None, payee_name = None,
                     imported_payee = Some ''Received from Bob'', category = None,
                     notes' = Some ''Received from Bob||'', imported_id = None,
                     cleared = Some False\<rparr>,
               example_actual)
   \<and> Transaction_type (transfer_row ''Internet Transfer'' ''Net tfr received from SAV 87654321'')
        = ''ALL''
   \<and> startsWith
        (Long_description (transfer_row ''Internet Transfer'' ''Net tfr received from SAV 87654321''))
        ''Net tfr received from''
   \<and> csvDataRowToTransactionAsync example_ext example_mapping example_actual
        (transfer_row ''Internet Transfer'' ''Net tfr received from SAV 87654321'')
        = Inr (Some \<lparr>account = ''aaaaaaaa-0000-0000-0000-000000000001'',
                     date = Date 1672480800000, amount = Some (Num (- 1000)),
                     payee = None, payee_name = None,
                     imported_payee = Some ''Net tfr received from SAV 87654321'',
                     category = None,
                     notes' = Some ''Net tfr received from SAV 87654321||'',
                     imported_id = None, cleared = Some False\<rparr>,
               example_actual)"
  by code_simp

section \<open>Unmapped accounts\<close>

lemma rows_abort:
  "csvDataRowToTransactionAsync ext idMapping a row = Inl e
   \<Longrightarrow> rows_to_transactions ext idMapping a (row # rows) ts = Inl e"
  by simp

lemma row_unmapped:
  assumes "\<not> (amountToInteger_parseFloat ext (Debit_amount row) = Num 0
             \<and> amountToInteger_parseFloat ext (Credit_amount row) = Num 0)"
      and "truthy (idMapping (Account_number row)) = None"
  shows "csvDataRowToTransactionAsync ext idMapping a row
           = Inl (AccountNotFoundError (Account_number row))"
  using assms
  by (auto simp: csvDataRowToTransactionAsync_def extractDate_def Let_def)

lemma all_transfer_unmapped:
  assumes "idMapping (grp m 1) = None"
      and "Description row = ''Internet Transfer''
             \<and> startsWith (Long_description row) ''Transfer to ''
             \<and> exec re_transfer_to (Long_description row) = Some m
           \<or> Description row \<noteq> ''Internet Transfer''
             \<and> Description row \<noteq> ''Internet Ext Transfer''
             \<and> startsWith (Long_description row) ''Net tfr to''
             \<and> exec re_net_tfr_to (Long_description row) = Some m"
  shows "parseTransactionTypeAllAsync ext idMapping a row t
           = Inl (AccountNotFoundError (grp m 1))"
  using assms(2)
proof
  assume "Description row = ''Internet Transfer''
             \<and> startsWith (Long_description row) ''Transfer to ''
             \<and> exec re_transfer_to (Long_description row) = Some m"
  with assms(1) show ?thesis
    by (simp add: parseTransactionTypeAllAsync_def transferPayee_of_def truthy_def)
next
  assume h: "Description row \<noteq> ''Internet Transfer''
             \<and> Description row \<noteq> ''Internet Ext Transfer''
             \<and> startsWith (Long_description row) ''Net tfr to''
             \<and> exec re_net_tfr_to (Long_description row) = Some m"
  then obtain r where r: "Long_description row = ''Net tfr to'' @ r"
    using startsWithE by blast
  have "startsWith (Long_description row) ''Net tfr''"
    and "Long_description row
           \<notin> set [''Interest Credit'', ''Credit Card Interest'', ''Cash Advance Fee'']"
    by (simp_all add: r startsWith_def)
  with h assms(1) show ?thesis
    by (simp add: parseTransactionTypeAllAsync_def transferPayee_of_def truthy_def
          del: set_simps)
qed

text \<open>
  C4, as the code has it. The zero-amount filter comes first; for a row that passes it:
  \<^item> a row whose account number is not in the mapping throws the account-not-found
    exception for that number, and
  \<^item> a row of type \<open>ALL\<close> in one of the two transfer branches (\<open>Transfer to \<close> under the
    short description \<open>Internet Transfer\<close>, or \<open>Net tfr to\<close>) whose pattern matches and
    whose destination account number is not in the mapping throws the account-not-found
    exception, for the destination or for the row's own account number.
  In both cases the loop over the file's rows ends with that exception, whatever rows
  follow and whatever was collected before.
\<close>

theorem unmapped_account_aborts:
  assumes "\<not> (amountToInteger_parseFloat ext (Debit_amount row) = Num 0
             \<and> amountToInteger_parseFloat ext (Credit_amount row) = Num 0)"
  shows "(idMapping (Account_number row) = None \<longrightarrow>
            csvDataRowToTransactionAsync ext idMapping a row
              = Inl (AccountNotFoundError (Account_number row))
          \<and> rows_to_transactions ext idMapping a (row # rows) ts
              = Inl (AccountNotFoundError (Account_number row)))
       \<and> (Transaction_type row = ''ALL'' \<and> idMapping (grp m 1) = None
          \<and> (Description row = ''Internet Transfer''
               \<and> startsWith (Long_description row) ''Transfer to ''
               \<and> exec re_transfer_to (Long_description row) = Some m
             \<or> Description row \<noteq> ''Internet Transfer''
               \<and> Description row \<noteq> ''Internet Ext Transfer''
               \<and> startsWith (Long_description row) ''Net tfr to''
               \<and> exec re_net_tfr_to (Long_description row) = Some m) \<longrightarrow>
            (\<exists>n \<in> {Account_number row, grp m 1}.
               csvDataRowToTransactionAsync ext idMapping a row = Inl (AccountNotFoundError n)
               \<and> rows_to_transactions ext idMapping a (row # rows) ts
                   = Inl (AccountNotFoundError n)))"
proof (intro conjI impI)
  assume "idMapping (Account_number row) = None"
  then have "truthy (idMapping (Account_number row)) = None"
    by (simp add: truthy_def)
  with assms
  show "csvDataRowToTransactionAsync ext idMapping a row
          = Inl (AccountNotFoundError (Account_number row))"
    by (simp add: row_unmapped)
  then show "rows_to_transactions ext idMapping a (row # rows) ts
          = Inl (AccountNotFoundError (Account_number row))"
    by (rule rows_abort)
next
  assume h: "Transaction_type row = ''ALL'' \<and> idMapping (grp m 1) = None
          \<and> (Description row = ''Internet Transfer''
               \<and> startsWith (Long_description row) ''Transfer to ''
               \<and> exec re_transfer_to (Long_description row) = Some m
             \<or> Description row \<noteq> ''Internet Transfer''
               \<and> Description row \<noteq> ''Internet Ext Transfer''
               \<and> startsWith (Long_description row) ''Net tfr to''
               \<and> exec re_net_tfr_to (Long_description row) = Some m)"
  show "\<exists>n \<in> {Account_number row, grp m 1}.
               csvDataRowToTransactionAsync ext idMapping a row = Inl (AccountNotFoundError n)
               \<and> rows_to_transactions ext idMapping a (row # rows) ts
                   = Inl (AccountNotFoundError n)"
  proof (cases "truthy (idMapping (Account_number row))")
    case None
    with assms show ?thesis
      by (simp add: row_unmapped rows_abort)
  next
    case (Some acct)
    have "csvDataRowToTransactionAsync ext idMapping a row
            = Inl (AccountNotFoundError (grp m 1))"
      using assms h Some all_transfer_unmapped [of idMapping m row ext a]
      by (auto simp: csvDataRowToTransactionAsync_def extractDate_def Let_def)
    then show ?thesis
      by (simp add: rows_abort)
  qed
qed

theorem unmapped_account_aborts_witness:
  "csvDataRowToTransactionAsync example_ext example_mapping example_actual
     (example_row\<lparr>Account_number := ''99999999''\<rparr>)
     = Inl (AccountNotFoundError ''99999999'')
   \<and> rows_to_transactions example_ext example_mapping example_actual
       [example_row\<lparr>Account_number := ''99999999''\<rparr>, example_row] []
       = Inl (AccountNotFoundError ''99999999'')
   \<and> csvDataRowToTransactionAsync example_ext example_mapping example_actual
       (transfer_row ''Transfer''
          ''Net tfr to SAV 5555555. Rec No.: 1234567890, Some transaction description'')
       = Inl (AccountNotFoundError ''5555555'')"
proof -
  let ?r1 = "example_row\<lparr>Account_number := ''99999999''\<rparr>"
  let ?r2 = "transfer_row ''Transfer''
               ''Net tfr to SAV 5555555. Rec No.: 1234567890, Some transaction description''"
  let ?m = "[(2, ''1234567890''), (1, ''5555555'')]"
  have n1: "\<not> (amountToInteger_parseFloat example_ext (Debit_amount ?r1) = Num 0
              \<and> amountToInteger_parseFloat example_ext (Credit_amount ?r1) = Num 0)"
    and n2: "\<not> (amountToInteger_parseFloat example_ext (Debit_amount ?r2) = Num 0
              \<and> amountToInteger_parseFloat example_ext (Credit_amount ?r2) = Num 0)"
    by (simp_all add: transfer_row_def example_row_def example_ext_def example_amount_def)
  have a: "example_mapping (Account_number ?r1) = None"
    by (simp add: example_mapping_def)
  have e: "exec re_net_tfr_to (Long_description ?r2) = Some ?m"
    by code_simp
  have b: "Transaction_type ?r2 = ''ALL'' \<and> example_mapping (grp ?m 1) = None
          \<and> (Description ?r2 = ''Internet Transfer''
               \<and> startsWith (Long_description ?r2) ''Transfer to ''
               \<and> exec re_transfer_to (Long_description ?r2) = Some ?m
             \<or> Description ?r2 \<noteq> ''Internet Transfer''
               \<and> Description ?r2 \<noteq> ''Internet Ext Transfer''
               \<and> startsWith (Long_description ?r2) ''Net tfr to''
               \<and> exec re_net_tfr_to (Long_description ?r2) = Some ?m)"
    using e by (simp add: transfer_row_def example_mapping_def grp_def startsWith_def)
  have g: "grp ?m 1 = ''5555555''" and o: "Account_number ?r2 = ''12345678''"
    by (simp_all add: grp_def transfer_row_def example_row_def)
  have d: "AccountNotFoundError ''12345678'' \<noteq> AccountNotFoundError ''5555555''"
    by (simp add: AccountNotFoundError_def)
  have s: "csvDataRowToTransactionAsync example_ext example_mapping example_actual ?r2
             \<noteq> Inl (AccountNotFoundError ''12345678'')"
    by code_simp
  from unmapped_account_aborts
         [of example_ext ?r1 example_mapping example_actual "[example_row]" "[]", OF n1] a
  have 1: "csvDataRowToTransactionAsync example_ext example_mapping example_actual ?r1
             = Inl (AccountNotFoundError ''99999999'')
         \<and> rows_to_transactions example_ext example_mapping example_actual [?r1, example_row] []
             = Inl (AccountNotFoundError ''99999999'')"
    by simp
  from unmapped_account_aborts
         [where ext = example_ext and row = ?r2 and idMapping = example_mapping and m = ?m
            and a = example_actual and rows = "[]" and ts = "[]", OF n2] b
  have "\<exists>n \<in> {Account_number ?r2, grp ?m 1}.
          csvDataRowToTransactionAsync example_ext example_mapping example_actual ?r2
            = Inl (AccountNotFoundError n)"
    by blast
  with g o s
  have 2: "csvDataRowToTransactionAsync example_ext example_mapping example_actual ?r2
             = Inl (AccountNotFoundError ''5555555'')"
    by auto
  from 1 2 show ?thesis by simp
qed

text \<open>
  C4 as stated fails: a zero-amount row is left out before its account number is looked
  up, so a zero-amount row of an unmapped account is skipped without any exception.
\<close>

theorem unmapped_account_counterexample:
  "example_mapping (Account_number (example_row\<lparr>Account_number := ''99999999'',
      Debit_amount := ''0.0''\<rparr>)) = None
   \<and> csvDataRowToTransactionAsync example_ext example_mapping example_actual
        (example_row\<lparr>Account_number := ''99999999'', Debit_amount := ''0.0''\<rparr>)
        = Inr (None, example_actual)"
  by code_simp

section \<open>Card purchases\<close>

lemma liquor_name: "category_name_of ''Liquor Store, Restricted'' = Some ''Groceries''"
  by (simp add: category_name_of_def CategoryOverrides_def)

lemma liquor_not_inherited: "''Liquor Store, Restricted'' \<notin> set Object_prototype_keys"
  by (simp add: Object_prototype_keys_def)

lemma createCategoryAsync_appends:
  "createCategoryAsync ext a (CategoryName n) = Inr (c, a')
   \<Longrightarrow> cat_name c = n \<and> a' = a\<lparr>categories := categories a @ [c]\<rparr>"
  by (auto simp: createCategoryAsync_def Let_def split: if_splits option.splits sum.splits)

lemma createCategoryAsync_cong:
  assumes "\<forall>c. cat_name c = n \<longrightarrow> createCategory ext' c = createCategory ext c"
  shows "createCategoryAsync ext' a (CategoryName n) = createCategoryAsync ext a (CategoryName n)"
  using assms
  by (auto simp: createCategoryAsync_def Let_def split: if_splits option.splits sum.splits)

lemma visa_category_cong:
  assumes "\<forall>c. cat_name c = n \<longrightarrow> createCategory ext' c = createCategory ext c"
  shows "visa_category ext' a (Some n) = visa_category ext a (Some n)"
  by (simp add: visa_category_def createCategoryAsync_cong [OF assms] split: option.splits)

lemma visa_category_result:
  assumes "visa_category ext a (Some n) = Inr (cat, a')" and "n \<noteq> []"
  shows "case find (\<lambda>c. cat_name c = n) (categories a) of
           Some c \<Rightarrow> cat = Some c \<and> a' = a
         | None \<Rightarrow> (\<exists>c. createCategoryAsync ext a (CategoryName n) = Inr (c, a')
                      \<and> cat = Some c \<and> cat_name c = n)"
proof (cases "find (\<lambda>c. cat_name c = n) (categories a)")
  case None
  with assms show ?thesis
    by (auto simp: visa_category_def split: sum.splits dest: createCategoryAsync_appends)
next
  case (Some c)
  with assms have "cat = Some c" and "a' = a"
    by (auto simp: visa_category_def)
  with Some show ?thesis
    by simp
qed

lemma visa_liquor:
  assumes "Category_list row = ''Liquor Store, Restricted''"
  shows "parseTransactionTypeVisaAsync ext a row t =
           (case visa_payee_name row of
              Inl e \<Rightarrow> Inl e
            | Inr name \<Rightarrow>
                (case visa_category ext a (Some ''Groceries'') of
                   Inl e \<Rightarrow> Inl e
                 | Inr (cat, a') \<Rightarrow>
                     Inr (Some (t\<lparr>payee_name := Some name,
                             category := (case cat of None \<Rightarrow> None | Some c \<Rightarrow> cat_id c),
                             imported_id := (case exec re_ref (Long_description row) of
                                None \<Rightarrow> None | Some m \<Rightarrow> Some (grp m 1))\<rparr>), a')))"
  using assms liquor_not_inherited
  by (simp add: parseTransactionTypeVisaAsync_def liquor_name Let_def
        split: sum.splits prod.splits)

lemma find_filter_eq: "(\<And>x. P x \<Longrightarrow> Q x) \<Longrightarrow> find P (filter Q xs) = find P xs"
  by (induction xs) auto

lemma createCategoryAsync_cache:
  "map_sum id fst (createCategoryAsync ext (a\<lparr>categories := cs\<rparr>) arg)
     = map_sum id fst (createCategoryAsync ext a arg)"
  by (auto simp: createCategoryAsync_def Let_def
           split: category_arg.splits option.splits sum.splits)

lemma visa_category_cache:
  assumes "find (\<lambda>c. cat_name c = n) cs = find (\<lambda>c. cat_name c = n) (categories a)"
  shows "map_sum id fst (visa_category ext (a\<lparr>categories := cs\<rparr>) (Some n))
           = map_sum id fst (visa_category ext a (Some n))"
proof (cases "find (\<lambda>c. cat_name c = n) (categories a)")
  case None
  with assms
       createCategoryAsync_cache [where ext = ext and a = a and cs = cs and arg = "CategoryName n"]
  show ?thesis
    by (auto simp: visa_category_def split: sum.splits)
next
  case (Some c)
  with assms show ?thesis
    by (simp add: visa_category_def)
qed

lemma visa_liquor_cache:
  assumes "Category_list row = ''Liquor Store, Restricted''"
      and "filter (\<lambda>c. cat_name c \<noteq> ''Liquor Store, Restricted'') cs
             = filter (\<lambda>c. cat_name c \<noteq> ''Liquor Store, Restricted'') (categories a)"
  shows "map_sum id fst (parseTransactionTypeVisaAsync ext (a\<lparr>categories := cs\<rparr>) row t)
           = map_sum id fst (parseTransactionTypeVisaAsync ext a row t)"
proof -
  have "find (\<lambda>c. cat_name c = ''Groceries'') cs
          = find (\<lambda>c. cat_name c = ''Groceries'')
              (filter (\<lambda>c. cat_name c \<noteq> ''Liquor Store, Restricted'') cs)"
    by (rule find_filter_eq [symmetric]) auto
  also have "\<dots> = find (\<lambda>c. cat_name c = ''Groceries'') (categories a)"
    unfolding assms(2) by (rule find_filter_eq) auto
  finally have "map_sum id fst (visa_category ext (a\<lparr>categories := cs\<rparr>) (Some ''Groceries''))
           = map_sum id fst (visa_category ext a (Some ''Groceries''))"
    by (rule visa_category_cache)
  then show ?thesis
    by (auto simp: visa_liquor [OF assms(1)] split: sum.splits)
qed

lemma row_liquor_cache:
  assumes "Transaction_type row = ''VISA''"
      and "Category_list row = ''Liquor Store, Restricted''"
      and "filter (\<lambda>c. cat_name c \<noteq> ''Liquor Store, Restricted'') cs
             = filter (\<lambda>c. cat_name c \<noteq> ''Liquor Store, Restricted'') (categories a)"
  shows "map_sum id fst (csvDataRowToTransactionAsync ext idMapping (a\<lparr>categories := cs\<rparr>) row)
           = map_sum id fst (csvDataRowToTransactionAsync ext idMapping a row)"
  using assms(1) visa_liquor_cache [OF assms(2,3)]
  by (simp add: csvDataRowToTransactionAsync_def extractDate_def Let_def split: option.splits)

lemma createCategoryAsync_created:
  assumes "createCategoryAsync ext a (CategoryName n) = Inr (c, a')"
  shows "\<exists>newId g.
           (if n = ''Interest'' then incomeCategoryGroupId a = Some g
            else defaultCategoryGroupId a = Some g)
         \<and> createCategory ext \<lparr>cat_id = None, cat_name = n, group_id = g, is_income = None\<rparr>
             = Inr newId
         \<and> c = \<lparr>cat_id = Some newId, cat_name = n, group_id = g, is_income = None\<rparr>
         \<and> a' = a\<lparr>categories := categories a @ [c]\<rparr>"
  using assms
  by (auto simp: createCategoryAsync_def truthy_def Let_def
           split: if_splits option.splits sum.splits)

lemma createCategoryAsync_succeeds:
  assumes "isInitialised a"
      and "truthy (defaultCategoryGroupId a) = Some g"
      and "truthy (incomeCategoryGroupId a) = Some i"
      and "n \<noteq> ''Interest''"
      and "createCategory ext \<lparr>cat_id = None, cat_name = n, group_id = g, is_income = None\<rparr>
             = Inr newId"
  shows "createCategoryAsync ext a (CategoryName n)
           = Inr (\<lparr>cat_id = Some newId, cat_name = n, group_id = g, is_income = None\<rparr>,
                  a\<lparr>categories := categories a
                     @ [\<lparr>cat_id = Some newId, cat_name = n, group_id = g, is_income = None\<rparr>]\<rparr>)"
  using assms by (simp add: createCategoryAsync_def Let_def)

lemma getHours_createCategory [simp]:
  "getHours (ext\<lparr>createCategory := f\<rparr>) d = getHours ext d"
  by (cases d) simp_all

lemma setHours_createCategory [simp]:
  "setHours (ext\<lparr>createCategory := f\<rparr>) d h = setHours ext d h"
  by (cases d; cases h) simp_all

lemma row_liquor_produces:
  assumes "Transaction_type row = ''VISA''"
      and "Category_list row = ''Liquor Store, Restricted''"
      and "\<not> (amountToInteger_parseFloat ext (Debit_amount row) = Num 0
             \<and> amountToInteger_parseFloat ext (Credit_amount row) = Num 0)"
      and "truthy (idMapping (Account_number row)) = Some acct"
      and "visa_payee_name row = Inr name"
      and "visa_category ext a (Some ''Groceries'') = Inr (Some c, a')"
  shows "\<exists>t. csvDataRowToTransactionAsync ext idMapping a row = Inr (Some t, a')
           \<and> category t = cat_id c \<and> payee_name t = Some name"
  using assms
  by (auto simp: csvDataRowToTransactionAsync_def extractDate_def Let_def
        visa_liquor [OF assms(2)])

text \<open>
  C5. For a row of type \<open>VISA\<close> whose category list is exactly
  \<open>Liquor Store, Restricted\<close>:
  \<^item> the category name that is looked up, and created when missing, is \<open>Groceries\<close>;
  \<^item> when the row gives a transaction and the cache has a category named \<open>Groceries\<close>,
    the transaction's category is the id of the first such category and the ledger
    state is unchanged;
  \<^item> when the row gives a transaction and the cache has none, the remote ledger was asked
    for a category named \<open>Groceries\<close> in the default group and answered with an id, that
    id is the transaction's category, and the one category added to the cache is the
    one of that id, named \<open>Groceries\<close>;
  \<^item> the row does give such a transaction whenever it passes the zero-amount filter, its
    account number is mapped and its payee name can be extracted, and either the cache
    has a category named \<open>Groceries\<close>, or the ledger is initialised, has both category
    groups and the remote ledger answers the request for \<open>Groceries\<close> with an id;
  \<^item> the row's result does not depend on what the remote ledger would answer to a
    request for a category of any other name: no such request is made;
  \<^item> the row's outcome, a transaction or an exception, does not depend on the cached
    categories named \<open>Liquor Store, Restricted\<close>: the cache may hold any of them or none.
\<close>

theorem liquor_store_is_groceries:
  assumes "Transaction_type row = ''VISA''"
      and "Category_list row = ''Liquor Store, Restricted''"
  shows "category_name_of (Category_list row) = Some ''Groceries''
       \<and> (csvDataRowToTransactionAsync ext idMapping a row = Inr (Some t, a') \<longrightarrow>
            (case find (\<lambda>c. cat_name c = ''Groceries'') (categories a) of
               Some c \<Rightarrow> category t = cat_id c \<and> a' = a
             | None \<Rightarrow>
                 (\<exists>newId g.
                    defaultCategoryGroupId a = Some g
                  \<and> createCategory ext
                      \<lparr>cat_id = None, cat_name = ''Groceries'', group_id = g, is_income = None\<rparr>
                      = Inr newId
                  \<and> category t = Some newId
                  \<and> a' = a\<lparr>categories := categories a
                         @ [\<lparr>cat_id = Some newId, cat_name = ''Groceries'', group_id = g,
                             is_income = None\<rparr>]\<rparr>)))
       \<and> (\<not> (amountToInteger_parseFloat ext (Debit_amount row) = Num 0
               \<and> amountToInteger_parseFloat ext (Credit_amount row) = Num 0)
            \<and> truthy (idMapping (Account_number row)) = Some acct
            \<and> visa_payee_name row = Inr name \<longrightarrow>
            (find (\<lambda>c. cat_name c = ''Groceries'') (categories a) = Some cached \<longrightarrow>
               (\<exists>t. csvDataRowToTransactionAsync ext idMapping a row = Inr (Some t, a)
                  \<and> category t = cat_id cached \<and> payee_name t = Some name))
          \<and> (find (\<lambda>c. cat_name c = ''Groceries'') (categories a) = None
               \<and> isInitialised a
               \<and> truthy (defaultCategoryGroupId a) = Some dflt
               \<and> truthy (incomeCategoryGroupId a) = Some inc
               \<and> createCategory ext
                   \<lparr>cat_id = None, cat_name = ''Groceries'', group_id = dflt, is_income = None\<rparr>
                   = Inr created \<longrightarrow>
               (\<exists>t. csvDataRowToTransactionAsync ext idMapping a row
                       = Inr (Some t, a\<lparr>categories := categories a
                                @ [\<lparr>cat_id = Some created, cat_name = ''Groceries'',
                                    group_id = dflt, is_income = None\<rparr>]\<rparr>)
                  \<and> category t = Some created \<and> payee_name t = Some name)))
       \<and> ((\<forall>c. cat_name c = ''Groceries'' \<longrightarrow> f c = createCategory ext c)
          \<longrightarrow> csvDataRowToTransactionAsync (ext\<lparr>createCategory := f\<rparr>) idMapping a row
                = csvDataRowToTransactionAsync ext idMapping a row)
       \<and> (filter (\<lambda>c. cat_name c \<noteq> ''Liquor Store, Restricted'') cs
            = filter (\<lambda>c. cat_name c \<noteq> ''Liquor Store, Restricted'') (categories a)
          \<longrightarrow> map_sum id fst (csvDataRowToTransactionAsync ext idMapping (a\<lparr>categories := cs\<rparr>) row)
                = map_sum id fst (csvDataRowToTransactionAsync ext idMapping a row))"
proof (intro conjI impI)
  show "category_name_of (Category_list row) = Some ''Groceries''"
    by (simp add: assms liquor_name)
next
  assume r: "csvDataRowToTransactionAsync ext idMapping a row = Inr (Some t, a')"
  then obtain t0 where v: "parseTransactionTypeVisaAsync ext a row t0 = Inr (Some t, a')"
    using assms(1)
    by (auto simp: csvDataRowToTransactionAsync_def extractDate_def Let_def
             split: if_splits option.splits)
  then obtain cat where c: "visa_category ext a (Some ''Groceries'') = Inr (cat, a')"
      and t: "category t = (case cat of None \<Rightarrow> None | Some c \<Rightarrow> cat_id c)"
    by (auto simp: visa_liquor [OF assms(2)] split: sum.splits)
  show "case find (\<lambda>c. cat_name c = ''Groceries'') (categories a) of
               Some c \<Rightarrow> category t = cat_id c \<and> a' = a
             | None \<Rightarrow>
                 (\<exists>newId g.
                    defaultCategoryGroupId a = Some g
                  \<and> createCategory ext
                      \<lparr>cat_id = None, cat_name = ''Groceries'', group_id = g, is_income = None\<rparr>
                      = Inr newId
                  \<and> category t = Some newId
                  \<and> a' = a\<lparr>categories := categories a
                         @ [\<lparr>cat_id = Some newId, cat_name = ''Groceries'', group_id = g,
                             is_income = None\<rparr>]\<rparr>)"
  proof (cases "find (\<lambda>c. cat_name c = ''Groceries'') (categories a)")
    case (Some cached)
    with visa_category_result [OF c] t show ?thesis
      by simp
  next
    case None
    with visa_category_result [OF c] obtain c1 where
      c1: "createCategoryAsync ext a (CategoryName ''Groceries'') = Inr (c1, a')"
        "cat = Some c1"
      by auto
    from createCategoryAsync_created [OF c1(1)] obtain newId g where
      "defaultCategoryGroupId a = Some g"
      "createCategory ext
         \<lparr>cat_id = None, cat_name = ''Groceries'', group_id = g, is_income = None\<rparr> = Inr newId"
      "c1 = \<lparr>cat_id = Some newId, cat_name = ''Groceries'', group_id = g, is_income = None\<rparr>"
      "a' = a\<lparr>categories := categories a @ [c1]\<rparr>"
      by auto
    with None t c1(2) show ?thesis
      by auto
  qed
next
  assume p: "\<not> (amountToInteger_parseFloat ext (Debit_amount row) = Num 0
               \<and> amountToInteger_parseFloat ext (Credit_amount row) = Num 0)
            \<and> truthy (idMapping (Account_number row)) = Some acct
            \<and> visa_payee_name row = Inr name"
    and f: "find (\<lambda>c. cat_name c = ''Groceries'') (categories a) = Some cached"
  from f have "visa_category ext a (Some ''Groceries'') = Inr (Some cached, a)"
    by (simp add: visa_category_def)
  with assms p
  show "\<exists>t. csvDataRowToTransactionAsync ext idMapping a row = Inr (Some t, a)
          \<and> category t = cat_id cached \<and> payee_name t = Some name"
    by (intro row_liquor_produces) auto
next
  assume p: "\<not> (amountToInteger_parseFloat ext (Debit_amount row) = Num 0
               \<and> amountToInteger_parseFloat ext (Credit_amount row) = Num 0)
            \<and> truthy (idMapping (Account_number row)) = Some acct
            \<and> visa_payee_name row = Inr name"
    and q: "find (\<lambda>c. cat_name c = ''Groceries'') (categories a) = None
               \<and> isInitialised a
               \<and> truthy (defaultCategoryGroupId a) = Some dflt
               \<and> truthy (incomeCategoryGroupId a) = Some inc
               \<and> createCategory ext
                   \<lparr>cat_id = None, cat_name = ''Groceries'', group_id = dflt, is_income = None\<rparr>
                   = Inr created"
  let ?c = "\<lparr>cat_id = Some created, cat_name = ''Groceries'', group_id = dflt, is_income = None\<rparr>"
  from q have "createCategoryAsync ext a (CategoryName ''Groceries'')
                 = Inr (?c, a\<lparr>categories := categories a @ [?c]\<rparr>)"
    by (intro createCategoryAsync_succeeds [where i = inc]) auto
  with q have "visa_category ext a (Some ''Groceries'')
                 = Inr (Some ?c, a\<lparr>categories := categories a @ [?c]\<rparr>)"
    by (simp add: visa_category_def)
  with assms p
  have "\<exists>t. csvDataRowToTransactionAsync ext idMapping a row
              = Inr (Some t, a\<lparr>categories := categories a @ [?c]\<rparr>)
          \<and> category t = cat_id ?c \<and> payee_name t = Some name"
    by (intro row_liquor_produces) auto
  then show "\<exists>t. csvDataRowToTransactionAsync ext idMapping a row
                       = Inr (Some t, a\<lparr>categories := categories a
                                @ [\<lparr>cat_id = Some created, cat_name = ''Groceries'',
                                    group_id = dflt, is_income = None\<rparr>]\<rparr>)
                  \<and> category t = Some created \<and> payee_name t = Some name"
    by simp
next
  assume h: "\<forall>c. cat_name c = ''Groceries'' \<longrightarrow> f c = createCategory ext c"
  then have "visa_category (ext\<lparr>createCategory := f\<rparr>) a (Some ''Groceries'')
               = visa_category ext a (Some ''Groceries'')"
    by (intro visa_category_cong) simp
  then have "parseTransactionTypeVisaAsync (ext\<lparr>createCategory := f\<rparr>) a row t0
               = parseTransactionTypeVisaAsync ext a row t0" for t0
    by (simp add: visa_liquor [OF assms(2)] split: sum.splits)
  with assms(1) show "csvDataRowToTransactionAsync (ext\<lparr>createCategory := f\<rparr>) idMapping a row
                = csvDataRowToTransactionAsync ext idMapping a row"
    by (simp add: csvDataRowToTransactionAsync_def extractDate_def Let_def
          split: option.splits)
next
  assume "filter (\<lambda>c. cat_name c \<noteq> ''Liquor Store, Restricted'') cs
            = filter (\<lambda>c. cat_name c \<noteq> ''Liquor Store, Restricted'') (categories a)"
  with assms
  show "map_sum id fst (csvDataRowToTransactionAsync ext idMapping (a\<lparr>categories := cs\<rparr>) row)
          = map_sum id fst (csvDataRowToTransactionAsync ext idMapping a row)"
    by (rule row_liquor_cache)
qed

theorem liquor_store_is_groceries_witness:
  "(\<exists>t. csvDataRowToTransactionAsync example_ext example_mapping example_actual
           (example_row\<lparr>Category_list := ''Liquor Store, Restricted''\<rparr>)
           = Inr (Some t, example_actual)
        \<and> category t = Some ''cccccccc-0000-0000-0000-000000000001''
        \<and> payee_name t = Some ''Cloudflare'')
   \<and> createCategory example_ext
        \<lparr>cat_id = None, cat_name = ''Groceries'',
         group_id = ''dddddddd-0000-0000-0000-000000000001'', is_income = None\<rparr>
       = Inr ''cccccccc-0000-0000-0000-000000000009''
   \<and> (\<exists>t. csvDataRowToTransactionAsync example_ext example_mapping
             (example_actual\<lparr>categories := []\<rparr>)
             (example_row\<lparr>Category_list := ''Liquor Store, Restricted''\<rparr>)
           = Inr (Some t,
                  example_actual\<lparr>categories :=
                    [\<lparr>cat_id = Some ''cccccccc-0000-0000-0000-000000000009'',
                      cat_name = ''Groceries'',
                      group_id = ''dddddddd-0000-0000-0000-000000000001'',
                      is_income = None\<rparr>]\<rparr>)
        \<and> category t = Some ''cccccccc-0000-0000-0000-000000000009''
        \<and> payee_name t = Some ''Cloudflare'')
   \<and> (\<exists>newId g.
         defaultCategoryGroupId (example_actual\<lparr>categories := []\<rparr>) = Some g
       \<and> createCategory example_ext
            \<lparr>cat_id = None, cat_name = ''Groceries'', group_id = g, is_income = None\<rparr>
           = Inr newId
       \<and> newId = ''cccccccc-0000-0000-0000-000000000009'')
   \<and> csvDataRowToTransactionAsync
        (example_ext\<lparr>createCategory := groceries_only_createCategory\<rparr>) example_mapping
        (example_actual\<lparr>categories := []\<rparr>)
        (example_row\<lparr>Category_list := ''Liquor Store, Restricted''\<rparr>)
       = csvDataRowToTransactionAsync example_ext example_mapping
           (example_actual\<lparr>categories := []\<rparr>)
           (example_row\<lparr>Category_list := ''Liquor Store, Restricted''\<rparr>)
   \<and> map_sum id fst
        (csvDataRowToTransactionAsync example_ext example_mapping
           (example_actual\<lparr>categories :=
              \<lparr>cat_id = Some ''cccccccc-0000-0000-0000-000000000003'',
               cat_name = ''Liquor Store, Restricted'',
               group_id = ''dddddddd-0000-0000-0000-000000000001'', is_income = None\<rparr>
              # categories example_actual\<rparr>)
           (example_row\<lparr>Category_list := ''Liquor Store, Restricted''\<rparr>))
       = map_sum id fst
           (csvDataRowToTransactionAsync example_ext example_mapping example_actual
              (example_row\<lparr>Category_list := ''Liquor Store, Restricted''\<rparr>))"
proof -
  let ?row = "example_row\<lparr>Category_list := ''Liquor Store, Restricted''\<rparr>"
  let ?a0 = "example_actual\<lparr>categories := []\<rparr>"
  let ?g = "''dddddddd-0000-0000-0000-000000000001''"
  let ?i = "''dddddddd-0000-0000-0000-000000000002''"
  let ?new = "''cccccccc-0000-0000-0000-000000000009''"
  let ?c = "\<lparr>cat_id = Some ?new, cat_name = ''Groceries'', group_id = ?g, is_income = None\<rparr>"
  let ?groc = "\<lparr>cat_id = Some ''cccccccc-0000-0000-0000-000000000001'',
                cat_name = ''Groceries'', group_id = ?g, is_income = Some False\<rparr>"
  let ?l = "\<lparr>cat_id = Some ''cccccccc-0000-0000-0000-000000000003'',
             cat_name = ''Liquor Store, Restricted'', group_id = ?g, is_income = None\<rparr>"
  let ?t2 = "(example_base (Long_description example_row))
              \<lparr>payee_name := Some ''Cloudflare'', category := Some ?new,
               notes' := Some (Long_description example_row @ ''||Liquor Store, Restricted''),
               imported_id := Some ''0123456789''\<rparr>"
  have 1: "Transaction_type ?row = ''VISA''"
    and 2: "Category_list ?row = ''Liquor Store, Restricted''"
    by (simp_all add: example_row_def)
  have p: "\<not> (amountToInteger_parseFloat example_ext (Debit_amount ?row) = Num 0
               \<and> amountToInteger_parseFloat example_ext (Credit_amount ?row) = Num 0)
            \<and> truthy (example_mapping (Account_number ?row))
                = Some ''aaaaaaaa-0000-0000-0000-000000000001''
            \<and> visa_payee_name ?row = Inr ''Cloudflare''"
    by code_simp
  have f1: "find (\<lambda>c. cat_name c = ''Groceries'') (categories example_actual) = Some ?groc"
    by (simp add: example_actual_def)
  have q: "find (\<lambda>c. cat_name c = ''Groceries'') (categories ?a0) = None
             \<and> isInitialised ?a0
             \<and> truthy (defaultCategoryGroupId ?a0) = Some ?g
             \<and> truthy (incomeCategoryGroupId ?a0) = Some ?i
             \<and> createCategory example_ext
                 \<lparr>cat_id = None, cat_name = ''Groceries'', group_id = ?g, is_income = None\<rparr>
                 = Inr ?new"
    by (simp add: example_actual_def example_ext_def example_createCategory_def truthy_def)
  have e2: "csvDataRowToTransactionAsync example_ext example_mapping ?a0 ?row
              = Inr (Some ?t2, ?a0\<lparr>categories := [?c]\<rparr>)"
    by code_simp
  have g: "\<forall>c. cat_name c = ''Groceries'' \<longrightarrow>
               groceries_only_createCategory c = createCategory example_ext c"
    by (simp add: groceries_only_createCategory_def example_ext_def)
  have h: "filter (\<lambda>c. cat_name c \<noteq> ''Liquor Store, Restricted'')
             (?l # categories example_actual)
           = filter (\<lambda>c. cat_name c \<noteq> ''Liquor Store, Restricted'') (categories example_actual)"
    by simp
  note found = liquor_store_is_groceries
                 [where row = ?row and ext = example_ext and idMapping = example_mapping
                    and a = example_actual and name = "''Cloudflare''" and cached = ?groc
                    and acct = "''aaaaaaaa-0000-0000-0000-000000000001''"
                    and cs = "?l # categories example_actual", OF 1 2]
  note created = liquor_store_is_groceries
                   [where row = ?row and ext = example_ext and idMapping = example_mapping
                      and a = ?a0 and name = "''Cloudflare''"
                      and acct = "''aaaaaaaa-0000-0000-0000-000000000001''"
                      and dflt = ?g and inc = ?i and created = ?new
                      and t = ?t2 and a' = "?a0\<lparr>categories := [?c]\<rparr>"
                      and f = groceries_only_createCategory, OF 1 2]
  from found p f1
  have A: "\<exists>t. csvDataRowToTransactionAsync example_ext example_mapping example_actual ?row
                 = Inr (Some t, example_actual)
              \<and> category t = Some ''cccccccc-0000-0000-0000-000000000001''
              \<and> payee_name t = Some ''Cloudflare''"
    by simp
  from created p q
  have B: "\<exists>t. csvDataRowToTransactionAsync example_ext example_mapping ?a0 ?row
                 = Inr (Some t, example_actual\<lparr>categories := [?c]\<rparr>)
              \<and> category t = Some ?new \<and> payee_name t = Some ''Cloudflare''"
    by simp
  from created e2 q
  have C: "\<exists>newId g.
             defaultCategoryGroupId ?a0 = Some g
           \<and> createCategory example_ext
                \<lparr>cat_id = None, cat_name = ''Groceries'', group_id = g, is_income = None\<rparr>
               = Inr newId
           \<and> newId = ?new"
    by auto
  from created g
  have D: "csvDataRowToTransactionAsync
             (example_ext\<lparr>createCategory := groceries_only_createCategory\<rparr>) example_mapping
             ?a0 ?row
           = csvDataRowToTransactionAsync example_ext example_mapping ?a0 ?row"
    by blast
  from found h
  have E: "map_sum id fst
             (csvDataRowToTransactionAsync example_ext example_mapping
                (example_actual\<lparr>categories := ?l # categories example_actual\<rparr>) ?row)
           = map_sum id fst
               (csvDataRowToTransactionAsync example_ext example_mapping example_actual ?row)"
    by blast
  from q have F: "createCategory example_ext
        \<lparr>cat_id = None, cat_name = ''Groceries'', group_id = ?g, is_income = None\<rparr> = Inr ?new"
    by blast
  from A F B C D E show ?thesis by blast
qed

lemma cloudflare_payee:
  "exec re_visa ''VISA-CLOUDFLARE HTTPSWWW.CLOUUSFRGN AMT-11.1111111#123455(Ref.0123456789)''
     = Some [(2, '' HTTP''), (1, ''CLOUDFLARE'')]"
  by code_simp

lemma cloudflare_ref:
  "exec re_ref ''VISA-CLOUDFLARE HTTPSWWW.CLOUUSFRGN AMT-11.1111111#123455(Ref.0123456789)''
     = Some [(1, ''0123456789'')]"
  by code_simp

lemma cloudflare_title: "trim (toTitleCase ''CLOUDFLARE'') = ''Cloudflare''"
  by code_simp

text \<open>
  C6. A row of type \<open>VISA\<close> with the long description of the source's example and an
  empty merchant name: the payee name extracted is \<open>Cloudflare\<close>, and whenever the row
  gives a transaction, its payee name is \<open>Cloudflare\<close> and its imported id is
  \<open>0123456789\<close>.
\<close>

theorem cloudflare_row:
  assumes "Transaction_type row = ''VISA''"
      and "Long_description row
             = ''VISA-CLOUDFLARE HTTPSWWW.CLOUUSFRGN AMT-11.1111111#123455(Ref.0123456789)''"
      and "Merchant_name row = []"
  shows "visa_payee_name row = Inr ''Cloudflare''
       \<and> (csvDataRowToTransactionAsync ext idMapping a row = Inr (Some t, a') \<longrightarrow>
            payee_name t = Some ''Cloudflare'' \<and> imported_id t = Some ''0123456789'')"
proof (rule conjI)
  show p: "visa_payee_name row = Inr ''Cloudflare''"
    using assms
    by (simp add: visa_payee_name_def cloudflare_payee cloudflare_title grp_def Let_def
          del: exec.simps toTitleCase.simps)
  show "csvDataRowToTransactionAsync ext idMapping a row = Inr (Some t, a') \<longrightarrow>
            payee_name t = Some ''Cloudflare'' \<and> imported_id t = Some ''0123456789''"
  proof
    assume "csvDataRowToTransactionAsync ext idMapping a row = Inr (Some t, a')"
    then obtain t0 where "parseTransactionTypeVisaAsync ext a row t0 = Inr (Some t, a')"
      using assms(1)
      by (auto simp: csvDataRowToTransactionAsync_def extractDate_def Let_def
               split: if_splits option.splits)
    then show "payee_name t = Some ''Cloudflare'' \<and> imported_id t = Some ''0123456789''"
      using assms(2)
      by (auto simp: parseTransactionTypeVisaAsync_def p cloudflare_ref grp_def Let_def
               simp del: exec.simps toTitleCase.simps split: if_splits sum.splits)
  qed
qed

theorem cloudflare_row_witness:
  "Transaction_type example_row = ''VISA''
   \<and> Long_description example_row
       = ''VISA-CLOUDFLARE HTTPSWWW.CLOUUSFRGN AMT-11.1111111#123455(Ref.0123456789)''
   \<and> Merchant_name example_row = []
   \<and> visa_payee_name example_row = Inr ''Cloudflare''
   \<and> (\<exists>t a'. csvDataRowToTransactionAsync example_ext example_mapping example_actual example_row
                 = Inr (Some t, a')
             \<and> payee_name t = Some ''Cloudflare'' \<and> imported_id t = Some ''0123456789'')"
proof -
  let ?t = "(example_base (Long_description example_row))
              \<lparr>payee_name := Some ''Cloudflare'', imported_id := Some ''0123456789''\<rparr>"
  have 1: "Transaction_type example_row = ''VISA''"
    and 2: "Long_description example_row
       = ''VISA-CLOUDFLARE HTTPSWWW.CLOUUSFRGN AMT-11.1111111#123455(Ref.0123456789)''"
    and 3: "Merchant_name example_row = []"
    by (simp_all add: example_row_def)
  have e: "csvDataRowToTransactionAsync example_ext example_mapping example_actual example_row
             = Inr (Some ?t, example_actual)"
    by code_simp
  from cloudflare_row [where row = example_row and ext = example_ext
         and idMapping = example_mapping and a = example_actual and t = ?t
         and a' = example_actual, OF 1 2 3] e
  have "visa_payee_name example_row = Inr ''Cloudflare''
        \<and> payee_name ?t = Some ''Cloudflare'' \<and> imported_id ?t = Some ''0123456789''"
    by blast
  with 1 2 3 e show ?thesis by blast
qed

section \<open>Creating a category\<close>

text \<open>
  C7. Whenever \<^verbatim>\<open>createCategoryAsync\<close> creates a category from a name, the category
  carries that name and the group of the income categories if the name is \<open>Interest\<close>,
  the default group otherwise; this is the category sent to the remote ledger, it gets
  the id the ledger answers with, and it is appended to the cache.
\<close>

theorem created_category_group:
  assumes "createCategoryAsync ext a (CategoryName n) = Inr (c, a')"
  shows "cat_name c = n
       \<and> (if n = ''Interest'' then incomeCategoryGroupId a = Some (group_id c)
          else defaultCategoryGroupId a = Some (group_id c))
       \<and> (\<exists>newCategoryId.
             createCategory ext
               \<lparr>cat_id = None, cat_name = n, group_id = group_id c, is_income = None\<rparr>
               = Inr newCategoryId
             \<and> cat_id c = Some newCategoryId)
       \<and> categories a' = categories a @ [c]"
  using assms
  by (auto simp: createCategoryAsync_def truthy_def Let_def
           split: if_splits option.splits sum.splits)

theorem created_category_group_witness:
  "(\<exists>c a'. createCategoryAsync example_ext example_actual (CategoryName ''Interest'')
              = Inr (c, a')
          \<and> incomeCategoryGroupId example_actual = Some (group_id c)
          \<and> group_id c = ''dddddddd-0000-0000-0000-000000000002'')
   \<and> (\<exists>c a'. createCategoryAsync example_ext example_actual (CategoryName ''Coffee'')
              = Inr (c, a')
          \<and> defaultCategoryGroupId example_actual = Some (group_id c)
          \<and> group_id c = ''dddddddd-0000-0000-0000-000000000001'')"
proof -
  let ?c1 = "\<lparr>cat_id = Some ''cccccccc-0000-0000-0000-000000000009'', cat_name = ''Interest'',
              group_id = ''dddddddd-0000-0000-0000-000000000002'', is_income = None\<rparr>"
  let ?c2 = "\<lparr>cat_id = Some ''cccccccc-0000-0000-0000-000000000009'', cat_name = ''Coffee'',
              group_id = ''dddddddd-0000-0000-0000-000000000001'', is_income = None\<rparr>"
  have e1: "createCategoryAsync example_ext example_actual (CategoryName ''Interest'')
              = Inr (?c1, example_actual\<lparr>categories := categories example_actual @ [?c1]\<rparr>)"
    by code_simp
  have e2: "createCategoryAsync example_ext example_actual (CategoryName ''Coffee'')
              = Inr (?c2, example_actual\<lparr>categories := categories example_actual @ [?c2]\<rparr>)"
    by code_simp
  from created_category_group [OF e1]
  have 1: "incomeCategoryGroupId example_actual = Some (group_id ?c1)"
    by simp
  from created_category_group [OF e2]
  have 2: "defaultCategoryGroupId example_actual = Some (group_id ?c2)"
    by simp
  from e1 1 have "\<exists>c a'. createCategoryAsync example_ext example_actual (CategoryName ''Interest'')
              = Inr (c, a')
          \<and> incomeCategoryGroupId example_actual = Some (group_id c)
          \<and> group_id c = ''dddddddd-0000-0000-0000-000000000002''"
    by (intro exI [of _ ?c1] exI [of _ "example_actual\<lparr>categories := categories example_actual @ [?c1]\<rparr>"])
       simp
  moreover
  from e2 2 have "\<exists>c a'. createCategoryAsync example_ext example_actual (CategoryName ''Coffee'')
              = Inr (c, a')
          \<and> defaultCategoryGroupId example_actual = Some (group_id c)
          \<and> group_id c = ''dddddddd-0000-0000-0000-000000000001''"
    by (intro exI [of _ ?c2] exI [of _ "example_actual\<lparr>categories := categories example_actual @ [?c2]\<rparr>"])
       simp
  ultimately show ?thesis by blast
qed

section \<open>The archival fields\<close>

text \<open>
  C8. Whenever a row gives a transaction, under any transaction type and any branch,
  the transaction's notes are the row's long description, merchant name and category
  list joined by \<open>|\<close>, as they stand in the row.
\<close>

theorem notes_are_pipe_join:
  assumes "csvDataRowToTransactionAsync ext idMapping a row = Inr (Some t, a')"
  shows "notes' t
           = Some (Long_description row @ ''|'' @ Merchant_name row @ ''|'' @ Category_list row)
       \<and> notes' t = Some (join ''|'' [Long_description row, Merchant_name row, Category_list row])"
  using row_frame [OF assms] by simp

theorem notes_are_pipe_join_witness:
  "\<exists>t a'. csvDataRowToTransactionAsync example_ext example_mapping example_actual
            (example_row\<lparr>Transaction_type := ''BPAY'', Merchant_name := ''Energy Co'',
               Category_list := ''Utilities, Electricity'',
               Long_description :=
                 ''Internet BPay to Energy Co - Biller Code 12345 - Receipt No 987654321''\<rparr>)
            = Inr (Some t, a')
        \<and> notes' t = Some (''Internet BPay to Energy Co - Biller Code 12345 - Receipt No 987654321''
                           @ ''|Energy Co|Utilities, Electricity'')"
proof -
  let ?long = "''Internet BPay to Energy Co - Biller Code 12345 - Receipt No 987654321''"
  let ?row = "example_row\<lparr>Transaction_type := ''BPAY'', Merchant_name := ''Energy Co'',
               Category_list := ''Utilities, Electricity'', Long_description := ?long\<rparr>"
  let ?t = "(example_base ?long)
              \<lparr>payee_name := Some ''Energy Co'',
               notes' := Some (?long @ ''|Energy Co|Utilities, Electricity''),
               imported_id := Some ''12345-987654321''\<rparr>"
  have e: "csvDataRowToTransactionAsync example_ext example_mapping example_actual ?row
             = Inr (Some ?t, example_actual)"
    by code_simp
  from notes_are_pipe_join [OF e]
  have "notes' ?t = Some (Long_description ?row @ ''|'' @ Merchant_name ?row @ ''|''
                            @ Category_list ?row)"
    by blast
  then have "notes' ?t = Some (?long @ ''|Energy Co|Utilities, Electricity'')"
    by simp
  with e show ?thesis by blast
qed

text \<open>
  C10. Whenever a row gives a transaction, under any transaction type and any branch,
  the transaction's imported payee is the row's long description as it stands.
\<close>

theorem imported_payee_is_long_description:
  assumes "csvDataRowToTransactionAsync ext idMapping a row = Inr (Some t, a')"
  shows "imported_payee t = Some (Long_description row)"
  using row_frame [OF assms] by simp

theorem imported_payee_is_long_description_witness:
  "\<exists>t a'. csvDataRowToTransactionAsync example_ext example_mapping example_actual
            (example_row\<lparr>Transaction_type := ''ALL WDLS'',
               Long_description := ''Osko Payment To Jane Doe jane@example.com Ref#555000111''\<rparr>)
            = Inr (Some t, a')
        \<and> imported_payee t = Some ''Osko Payment To Jane Doe jane@example.com Ref#555000111''"
proof -
  let ?long = "''Osko Payment To Jane Doe jane@example.com Ref#555000111''"
  let ?row = "example_row\<lparr>Transaction_type := ''ALL WDLS'', Long_description := ?long\<rparr>"
  let ?t = "(example_base ?long)
              \<lparr>payee_name := Some ''Jane Doe'', imported_id := Some ''555000111''\<rparr>"
  have e: "csvDataRowToTransactionAsync example_ext example_mapping example_actual ?row
             = Inr (Some ?t, example_actual)"
    by code_simp
  from imported_payee_is_long_description [OF e]
  have "imported_payee ?t = Some ?long"
    by simp
  with e show ?thesis by blast
qed

section \<open>Dates\<close>






end
